theory Spec2Isabelle
  imports Complex_Main
begin

section \<open>Error taxonomy (camera/types.ts, ocr/types.ts, utils/errors.ts)\<close>

datatype CameraError = NO_CAMERA | PERMISSION_DENIED | NOT_SUPPORTED | DEVICE_ERROR

datatype OCRError = INITIALIZATION_FAILED | PROCESSING_FAILED | NO_TEXT_FOUND | INVALID_IMAGE

text \<open>
  The members of both unions are string literals in the source; these are the strings.
\<close>

fun CameraError_str :: "CameraError \<Rightarrow> string" where
  "CameraError_str NO_CAMERA = ''NO_CAMERA''"
| "CameraError_str PERMISSION_DENIED = ''PERMISSION_DENIED''"
| "CameraError_str NOT_SUPPORTED = ''NOT_SUPPORTED''"
| "CameraError_str DEVICE_ERROR = ''DEVICE_ERROR''"

fun OCRError_str :: "OCRError \<Rightarrow> string" where
  "OCRError_str INITIALIZATION_FAILED = ''INITIALIZATION_FAILED''"
| "OCRError_str PROCESSING_FAILED = ''PROCESSING_FAILED''"
| "OCRError_str NO_TEXT_FOUND = ''NO_TEXT_FOUND''"
| "OCRError_str INVALID_IMAGE = ''INVALID_IMAGE''"

text \<open>
  A thrown value. \<open>JSError n m\<close> is an object that is an \<open>instanceof Error\<close> with
  \<open>name = n\<close> and \<open>message = m\<close> (the program's own errors, a DOMException of the
  platform); \<open>Thrown_String s\<close> is a bare string used as a rejection value, which has
  no \<open>name\<close> property.
\<close>

datatype thrown = JSError string string | Thrown_String string

fun name_of :: "thrown \<Rightarrow> string option" where
  "name_of (JSError n m) = Some n"
| "name_of (Thrown_String s) = None"

text \<open>\<open>new Error(msg)\<close>: the name of a plain error is \<open>Error\<close>.\<close>

definition new_Error :: "string \<Rightarrow> thrown" where
  "new_Error msg = JSError ''Error'' msg"

text \<open>\<open>createError(type)\<close> of both classes: \<open>new Error(type)\<close>, then \<open>error.name = type\<close>.\<close>

definition createError :: "string \<Rightarrow> thrown" where
  "createError type = JSError type type"

definition ERROR_MESSAGES :: "(string \<times> string) list" where
  "ERROR_MESSAGES =
    [(''NO_CAMERA'', ''No camera detected. Please connect a camera and try again.''),
     (''PERMISSION_DENIED'',
      ''Camera access denied. Please allow camera access in your browser settings and refresh the page.''),
     (''NOT_SUPPORTED'',
      ''Your browser doesn't support camera access. Please use Chrome, Firefox, Safari, or Edge.''),
     (''DEVICE_ERROR'', ''Camera error occurred. Please check your camera and try again.''),
     (''INITIALIZATION_FAILED'', ''Failed to initialize OCR. Please refresh the page and try again.''),
     (''PROCESSING_FAILED'', ''Failed to process image. Please try again with a different image.''),
     (''NO_TEXT_FOUND'',
      ''No text found in the image. Try capturing a clearer image with better lighting and visible text.''),
     (''INVALID_IMAGE'', ''Invalid image format. Please capture a new photo.'')]"

text \<open>
  \<open>getErrorMessage\<close>: a string is looked up as it is, an object by its name; a missing
  entry gives the generic message.
\<close>

definition getErrorMessage :: "thrown \<Rightarrow> string" where
  "getErrorMessage error =
    (let errorType = (case error of Thrown_String s \<Rightarrow> s | JSError n m \<Rightarrow> n)
     in case map_of ERROR_MESSAGES errorType of
          Some msg \<Rightarrow> msg
        | None \<Rightarrow> ''An unexpected error occurred. Please try again.'')"

text \<open>
  \<open>isAppError\<close>: the key test \<open>in ERROR_MESSAGES\<close>, on the eight keys the table declares.
  The names that every object inherits (\<open>constructor\<close>, \<open>toString\<close> and the like), which
  the operator \<open>in\<close> also finds and for which the lookup of \<open>getErrorMessage\<close> gives a
  value that is no message, are left out of both.
\<close>

definition isAppError :: "thrown \<Rightarrow> bool" where
  "isAppError error =
    (case error of
       Thrown_String s \<Rightarrow> s \<in> set (map fst ERROR_MESSAGES)
     | JSError n m \<Rightarrow> n \<in> set (map fst ERROR_MESSAGES))"

section \<open>Number extraction (OCRInterface.extractNumberSequences)\<close>

text \<open>
  Strings are lists of 8-bit characters, read as the code units \<open>0..255\<close> of a JavaScript
  string. In that range \<open>\d\<close> is \<open>0..9\<close>, and \<open>\s\<close> and \<open>trim\<close> agree on TAB, LF, VT, FF,
  CR, SPACE and NO-BREAK SPACE.
\<close>

definition isDigit :: "char \<Rightarrow> bool" where
  "isDigit c \<longleftrightarrow> c \<in> set ''0123456789''"

definition isSpace :: "char \<Rightarrow> bool" where
  "isSpace c \<longleftrightarrow>
     c \<in> set [CHR 0x09, CHR 0x0A, CHR 0x0B, CHR 0x0C, CHR 0x0D, CHR 0x20, CHR 0xA0]"

text \<open>The character class \<open>[\d\s+-]\<close>.\<close>

definition inClass :: "char \<Rightarrow> bool" where
  "inClass c \<longleftrightarrow> isDigit c \<or> isSpace c \<or> c = CHR ''+'' \<or> c = CHR ''-''"

text \<open>
  The global match of \<open>/[\d\s+-]{8,}/g\<close>, as the regular-expression engine runs it: at
  each position the greedy quantifier takes every class character that follows; with
  eight or more the match succeeds and the scan goes on after it, otherwise the scan
  moves one character on.
\<close>

function matchAll :: "string \<Rightarrow> string list" where
  "matchAll [] = []"
| "matchAll (c # cs) =
     (let run = takeWhile inClass (c # cs)
      in if 8 \<le> length run
         then run # matchAll (drop (length run) (c # cs))
         else matchAll cs)"
  by pat_completeness auto
termination
  by (relation "measure length") auto

text \<open>\<open>text.match(...)\<close> is \<open>null\<close> when nothing matches.\<close>

definition String_match :: "string \<Rightarrow> string list option" where
  "String_match txt = (case matchAll txt of [] \<Rightarrow> None | ms \<Rightarrow> Some ms)"

definition trim :: "string \<Rightarrow> string" where
  "trim s = rev (dropWhile isSpace (rev (dropWhile isSpace s)))"

definition extractNumberSequences :: "string \<Rightarrow> string list" where
  "extractNumberSequences txt =
    (case String_match txt of
       None \<Rightarrow> []
     | Some matches \<Rightarrow>
         filter (\<lambda>seq. 2 \<le> length (filter (\<lambda>c. \<not> isSpace c) seq))
           (filter (\<lambda>seq. list_ex isDigit seq)
             (map trim matches)))"

text \<open>
  The reading of the last filter that the comment beside it gives, "at least 2 digits
  (ignoring spaces)": the number of digits of a sequence.
\<close>

definition digitCount :: "string \<Rightarrow> nat" where
  "digitCount seq = length (filter isDigit seq)"

text \<open>
  The extractor as the specification words it, to compare with the code: the maximal runs
  of class characters, those of length 8 or more, trimmed, with a digit, with two digits
  or more.
\<close>

function classRuns :: "string \<Rightarrow> string list" where
  "classRuns cs =
    (case dropWhile (\<lambda>c. \<not> inClass c) cs of
       [] \<Rightarrow> []
     | x # xs \<Rightarrow> takeWhile inClass (x # xs) # classRuns (dropWhile inClass (x # xs)))"
  by pat_completeness auto
termination
proof (relation "measure length")
  fix cs :: string and x xs
  assume h: "dropWhile (\<lambda>c. \<not> inClass c) cs = x # xs"
  then have "inClass x" using hd_dropWhile [of "\<lambda>c. \<not> inClass c" cs] by simp
  then have "length (dropWhile inClass (x # xs)) \<le> length xs"
    by (simp add: length_dropWhile_le)
  moreover have "length (x # xs) \<le> length cs"
    using h length_dropWhile_le [of "\<lambda>c. \<not> inClass c" cs] by simp
  ultimately show "(dropWhile inClass (x # xs), cs) \<in> measure length" by simp
qed simp

declare classRuns.simps [simp del]

definition spec_extract :: "string \<Rightarrow> string list" where
  "spec_extract cs =
    filter (\<lambda>seq. 2 \<le> digitCount seq)
      (filter (\<lambda>seq. list_ex isDigit seq)
        (map trim (filter (\<lambda>r. 8 \<le> length r) (classRuns cs))))"

section \<open>Camera session (camera/types.ts, CameraManager.ts)\<close>

datatype facingMode = user | environment

record CameraConfig =
  facingMode :: facingMode
  idealWidth :: "nat option"
  idealHeight :: "nat option"

text \<open>
  A track of a media stream: its kind and the \<open>deviceId\<close> of its settings. A stream is
  the list of its tracks.
\<close>

record MediaStreamTrack =
  kind :: string
  settingsDeviceId :: "string option"

type_synonym MediaStream = "MediaStreamTrack list"

definition getVideoTracks :: "MediaStream \<Rightarrow> MediaStreamTrack list" where
  "getVideoTracks strm = filter (\<lambda>t. kind t = ''video'') strm"

text \<open>The preview element of the camera view.\<close>

datatype HTMLVideoElement = VideoPreview

record ImageData =
  width :: nat
  height :: nat
  data :: "nat list"

text \<open>
  The calls made on the platform, in the order they are made: the log that the claims
  about requests and released tracks read.
\<close>

datatype effect =
    EnumerateDevices
  | GetUserMedia CameraConfig
  | TrackStop MediaStreamTrack
  | GetCurrentPosition

text \<open>
  What the platform offers: \<open>navigator.mediaDevices?.getUserMedia\<close> and
  \<open>navigator.geolocation\<close>.
\<close>

record Navigator =
  getUserMedia :: bool
  geolocation :: bool

record CameraState =
  stream :: "MediaStream option"
  isActive :: bool
  deviceId :: "string option"

record CameraManager =
  state :: CameraState
  videoElement :: "HTMLVideoElement option"

definition CameraManager_new :: CameraManager where
  "CameraManager_new =
    \<lparr>state = \<lparr>stream = None, isActive = False, deviceId = None\<rparr>, videoElement = None\<rparr>"

text \<open>
  \<open>checkCameraAvailability\<close>. Without the capability it returns false at once (\<open>Inl\<close>);
  otherwise it asks for the device list and waits (\<open>Inr\<close>, the call made). The answer is
  a rejection or the kinds of the devices.
\<close>

definition checkCameraAvailability_begin :: "Navigator \<Rightarrow> bool + effect list" where
  "checkCameraAvailability_begin nav =
    (if \<not> getUserMedia nav then Inl False else Inr [EnumerateDevices])"

definition checkCameraAvailability_settle :: "thrown + string list \<Rightarrow> bool" where
  "checkCameraAvailability_settle devices =
    (case devices of
       Inl error \<Rightarrow> False
     | Inr kinds \<Rightarrow> 0 < length (filter (\<lambda>k. k = ''videoinput'') kinds))"

definition checkCameraAvailability ::
    "Navigator \<Rightarrow> thrown + string list \<Rightarrow> bool \<times> effect list" where
  "checkCameraAvailability nav devices =
    (case checkCameraAvailability_begin nav of
       Inl b \<Rightarrow> (b, [])
     | Inr effs \<Rightarrow> (checkCameraAvailability_settle devices, effs))"

fun handleStreamError :: "thrown \<Rightarrow> CameraError" where
  "handleStreamError error =
    (let errorName = name_of error
     in if errorName = Some ''NotAllowedError'' \<or> errorName = Some ''PermissionDeniedError''
        then PERMISSION_DENIED
        else if errorName = Some ''NotFoundError'' \<or> errorName = Some ''DevicesNotFoundError''
        then NO_CAMERA
        else if errorName = Some ''NotSupportedError''
        then NOT_SUPPORTED
        else DEVICE_ERROR)"

text \<open>
  \<open>requestCameraAccess\<close>, in the two parts that the \<open>await\<close> separates: up to the call
  of \<open>getUserMedia\<close> (\<open>Inl\<close>: thrown before any request), and from its answer on.
\<close>

definition requestCameraAccess_begin :: "Navigator \<Rightarrow> CameraConfig \<Rightarrow> thrown + effect list" where
  "requestCameraAccess_begin nav config =
    (if \<not> getUserMedia nav
     then Inl (createError (CameraError_str NOT_SUPPORTED))
     else Inr [GetUserMedia config])"

definition requestCameraAccess_settle ::
    "thrown + MediaStream \<Rightarrow> CameraManager \<Rightarrow> (thrown + MediaStream) \<times> CameraManager" where
  "requestCameraAccess_settle answer cm =
    (case answer of
       Inr strm \<Rightarrow>
         (Inr strm,
          cm\<lparr>state := (state cm)\<lparr>
               stream := Some strm,
               isActive := True,
               deviceId :=
                 (case getVideoTracks strm of
                    [] \<Rightarrow> deviceId (state cm)
                  | videoTrack # _ \<Rightarrow>
                      (case settingsDeviceId videoTrack of
                         None \<Rightarrow> None
                       | Some d \<Rightarrow> if d = [] then None else Some d))\<rparr>\<rparr>)
     | Inl error \<Rightarrow> (Inl (createError (CameraError_str (handleStreamError error))), cm))"

definition requestCameraAccess ::
    "Navigator \<Rightarrow> CameraConfig \<Rightarrow> thrown + MediaStream \<Rightarrow> CameraManager
      \<Rightarrow> (thrown + MediaStream) \<times> CameraManager \<times> effect list" where
  "requestCameraAccess nav config answer cm =
    (case requestCameraAccess_begin nav config of
       Inl error \<Rightarrow> (Inl error, cm, [])
     | Inr effs \<Rightarrow>
         (let (r, cm') = requestCameraAccess_settle answer cm in (r, cm', effs)))"

definition attachToVideoElement :: "HTMLVideoElement \<Rightarrow> CameraManager \<Rightarrow> thrown + CameraManager" where
  "attachToVideoElement video cm =
    (if stream (state cm) = None
     then Inl (new_Error ''No active camera stream'')
     else Inr (cm\<lparr>videoElement := Some video\<rparr>))"

text \<open>
  What \<open>capturePhoto\<close> finds when it draws: the size of the video, whether the canvas
  gives a 2d context, and the pixels read back. \<open>getImageData\<close> throws an
  \<open>IndexSizeError\<close> when the width or the height it is asked for is zero.
\<close>

record Canvas =
  videoWidth :: nat
  videoHeight :: nat
  context2d :: bool
  pixels :: "nat list"

definition capturePhoto :: "Canvas \<Rightarrow> CameraManager \<Rightarrow> thrown + ImageData" where
  "capturePhoto canvas cm =
    (if videoElement cm = None then Inl (new_Error ''No video element attached'')
     else if stream (state cm) = None \<or> \<not> isActive (state cm)
     then Inl (new_Error ''Camera is not active'')
     else if \<not> context2d canvas then Inl (new_Error ''Failed to get canvas context'')
     else if videoWidth canvas = 0 \<or> videoHeight canvas = 0
     then Inl (JSError ''IndexSizeError'' ''The source width or height is 0'')
     else Inr \<lparr>width = videoWidth canvas, height = videoHeight canvas, data = pixels canvas\<rparr>)"

text \<open>
  \<open>stopCamera\<close>: every track of a held stream is stopped, then all four fields are
  reset. It has no branch that throws.
\<close>

definition stopCamera :: "CameraManager \<Rightarrow> CameraManager \<times> effect list" where
  "stopCamera cm =
    (let (st1, effs) =
           (case stream (state cm) of
              Some strm \<Rightarrow> ((state cm)\<lparr>stream := None\<rparr>, map TrackStop strm)
            | None \<Rightarrow> (state cm, []));
         ve = (case videoElement cm of Some v \<Rightarrow> None | None \<Rightarrow> videoElement cm)
     in (\<lparr>state = st1\<lparr>isActive := False, deviceId := None\<rparr>, videoElement = ve\<rparr>, effs))"

text \<open>Stopping \<open>n\<close> times in a row, with the tracks stopped along the way.\<close>

fun stopCamera_times :: "nat \<Rightarrow> CameraManager \<Rightarrow> CameraManager \<times> effect list" where
  "stopCamera_times 0 cm = (cm, [])"
| "stopCamera_times (Suc n) cm =
     (let (cm1, effs1) = stopCamera cm; (cm2, effs2) = stopCamera_times n cm1
      in (cm2, effs1 @ effs2))"

text \<open>
  The states a manager can be in: the new one, and any reached from it by the methods
  that write its fields.
\<close>

inductive reachable :: "CameraManager \<Rightarrow> bool" where
  reach_new: "reachable CameraManager_new"
| reach_request: "reachable cm \<Longrightarrow> reachable (fst (snd (requestCameraAccess nav config answer cm)))"
| reach_attach: "reachable cm \<Longrightarrow> attachToVideoElement video cm = Inr cm' \<Longrightarrow> reachable cm'"
| reach_stop: "reachable cm \<Longrightarrow> reachable (fst (stopCamera cm))"

section \<open>Recognition engine (ocr/types.ts, OCREngine.ts)\<close>

record OCRResult =
  text' :: string
  confidence :: real
  language :: string

datatype OCRStatus = loading | initializing | recognizing | completed | error

record OCRProgress =
  status :: OCRStatus
  progress :: int
  message :: string

datatype Worker = Worker

text \<open>
  \<open>onProgressCallback\<close> says whether a callback is registered. The methods return, beside
  their result, the progress values they hand to it, in order.
\<close>

record OCREngine =
  worker :: "Worker option"
  isInitialized :: bool
  onProgressCallback :: bool

definition OCREngine_new :: OCREngine where
  "OCREngine_new = \<lparr>worker = None, isInitialized = False, onProgressCallback = False\<rparr>"

definition reportProgress :: "OCREngine \<Rightarrow> OCRProgress \<Rightarrow> OCRProgress list" where
  "reportProgress eng p = (if onProgressCallback eng then [p] else [])"

definition isReady :: "OCREngine \<Rightarrow> bool" where
  "isReady eng \<longleftrightarrow> isInitialized eng \<and> worker eng \<noteq> None"

text \<open>Decimal digits of a number, for the template \<open>${message}... ${progress}%\<close>.\<close>

fun string_of_nat :: "nat \<Rightarrow> string" where
  "string_of_nat n =
    (if n < 10 then [''0123456789'' ! n]
     else string_of_nat (n div 10) @ [''0123456789'' ! (n mod 10)])"

definition string_of_int :: "int \<Rightarrow> string" where
  "string_of_int i = (if i < 0 then CHR ''-'' # string_of_nat (nat (- i)) else string_of_nat (nat i))"

definition progressMap :: "(string \<times> OCRStatus) list" where
  "progressMap =
    [(''loading tesseract core'', loading),
     (''initializing tesseract'', initializing),
     (''initialized tesseract'', initializing),
     (''loading language traineddata'', loading),
     (''loaded language traineddata'', initializing),
     (''initializing api'', initializing),
     (''initialized api'', initializing),
     (''recognizing text'', recognizing)]"

definition messageMap :: "(string \<times> string) list" where
  "messageMap =
    [(''loading tesseract core'', ''Loading OCR engine''),
     (''initializing tesseract'', ''Initializing''),
     (''initialized tesseract'', ''Ready''),
     (''loading language traineddata'', ''Loading language data''),
     (''loaded language traineddata'', ''Language data loaded''),
     (''initializing api'', ''Starting up''),
     (''initialized api'', ''Ready to process''),
     (''recognizing text'', ''Extracting text'')]"

definition formatProgressMessage :: "string \<Rightarrow> int \<Rightarrow> string" where
  "formatProgressMessage st p =
    (let msg = (case map_of messageMap st of Some m \<Rightarrow> m | None \<Rightarrow> ''Processing'')
     in msg @ ''... '' @ string_of_int p @ ''%'')"

text \<open>
  A logger message of the worker: its status and its progress, a fraction.
  \<open>Math.round(x)\<close> is \<open>\<lfloor>x + 1/2\<rfloor>\<close>; the product is taken over the reals, where the
  code multiplies doubles, so a percentage next to a half may differ by one. The two
  tables are looked up on their own keys.
\<close>

definition handleTesseractLogger :: "OCREngine \<Rightarrow> string \<times> real \<Rightarrow> OCRProgress list" where
  "handleTesseractLogger eng m =
    (let st = (case map_of progressMap (fst m) of Some s \<Rightarrow> s | None \<Rightarrow> recognizing);
         p = \<lfloor>snd m * 100 + 1 / 2\<rfloor>
     in reportProgress eng
          \<lparr>status = st, progress = p, message = formatProgressMessage (fst m) p\<rparr>)"

text \<open>
  The value a promise of the worker is rejected with, which the \<open>catch\<close> block receives:
  an error object or a string, or \<open>null\<close> or \<open>undefined\<close>, which has no properties at
  all.
\<close>

datatype rejection = Rejected thrown | Rejected_nullish

text \<open>
  One run of the worker behind \<open>createWorker\<close> or \<open>worker.recognize\<close>: the logger
  messages it sends while it runs, and how its promise settles.
\<close>

record 'a WorkerRun =
  logger :: "(string \<times> real) list"
  settled :: "rejection + 'a"

definition initialize ::
    "bool \<Rightarrow> Worker WorkerRun \<Rightarrow> OCREngine \<Rightarrow> (thrown + unit) \<times> OCREngine \<times> OCRProgress list" where
  "initialize onProgress run eng =
    (if isInitialized eng \<and> worker eng \<noteq> None then (Inr (), eng, [])
     else
       let eng1 = eng\<lparr>onProgressCallback := onProgress\<rparr>;
           started = reportProgress eng1
             \<lparr>status = loading, progress = 0, message = ''Loading OCR engine...''\<rparr>;
           logged = concat (map (handleTesseractLogger eng1) (logger run))
       in case settled run of
            Inr w \<Rightarrow>
              (Inr (), eng1\<lparr>worker := Some w, isInitialized := True\<rparr>,
               started @ logged @ reportProgress eng1
                 \<lparr>status = initializing, progress = 100, message = ''OCR engine ready''\<rparr>)
          | Inl err \<Rightarrow>
              (Inl (createError (OCRError_str INITIALIZATION_FAILED)), eng1,
               started @ logged @ reportProgress eng1
                 \<lparr>status = error, progress = 0, message = ''Failed to initialize OCR engine''\<rparr>))"

text \<open>
  The \<open>catch\<close> block of \<open>recognizeText\<close>, entered with the value thrown in the \<open>try\<close>
  block and the progress reported so far. It reads \<open>error.name\<close> first: on \<open>null\<close> or
  \<open>undefined\<close> that read throws a \<open>TypeError\<close> (its message is the engine's), which
  leaves the method before anything is reported.
\<close>

definition recognizeText_catch ::
    "OCREngine \<Rightarrow> rejection \<Rightarrow> OCRProgress list \<Rightarrow> (thrown + OCRResult) \<times> OCRProgress list" where
  "recognizeText_catch eng rej reported =
    (case rej of
       Rejected_nullish \<Rightarrow>
         (Inl (JSError ''TypeError'' ''Cannot read properties of undefined''), reported)
     | Rejected err \<Rightarrow>
         if name_of err = Some ''NO_TEXT_FOUND'' then (Inl err, reported)
         else
           (Inl (createError (OCRError_str PROCESSING_FAILED)),
            reported @ reportProgress eng
              \<lparr>status = error, progress = 0, message = ''Failed to process image''\<rparr>))"

text \<open>
  \<open>recognizeText(image, language = 'eng')\<close>; \<open>None\<close> is the omitted argument. The run
  settles with the \<open>text\<close> and \<open>confidence\<close> of \<open>result.data\<close>.
\<close>

definition recognizeText ::
    "ImageData \<Rightarrow> string option \<Rightarrow> (string \<times> real) WorkerRun \<Rightarrow> OCREngine
      \<Rightarrow> (thrown + OCRResult) \<times> OCRProgress list" where
  "recognizeText img lang run eng =
    (let lng = (case lang of None \<Rightarrow> ''eng'' | Some l \<Rightarrow> l)
     in if worker eng = None \<or> \<not> isInitialized eng
        then (Inl (new_Error ''OCR engine not initialized. Call initialize() first.''), [])
        else
          let started = reportProgress eng
                \<lparr>status = recognizing, progress = 0, message = ''Processing image...''\<rparr>;
              logged = concat (map (handleTesseractLogger eng) (logger run))
          in case settled run of
               Inl rej \<Rightarrow> recognizeText_catch eng rej (started @ logged)
             | Inr (txt, conf) \<Rightarrow>
                 (let reported = started @ logged @ reportProgress eng
                        \<lparr>status = completed, progress = 100,
                         message = ''Text extraction complete''\<rparr>
                  in if txt = [] \<or> length (trim txt) = 0
                     then recognizeText_catch eng
                            (Rejected (createError (OCRError_str NO_TEXT_FOUND))) reported
                     else (Inr \<lparr>text' = txt, confidence = conf, language = lng\<rparr>,
                           reported)))"

section \<open>Capture workflow (ui/OCRInterface.ts)\<close>

text \<open>
  What the container shows. The processing view holds the two texts that
  \<open>updateProgress\<close> writes, the error view the message it was rendered with.
\<close>

datatype view =
    IdleView
  | CameraView
  | CapturedView
  | ProcessingView string string
  | ResultsView
  | ErrorView string

record location =
  latitude :: real
  longitude :: real

text \<open>
  The fields of the class, the view in the container, and the log of the platform calls
  made so far.
\<close>

record OCRInterface =
  cameraManager :: CameraManager
  ocrEngine :: OCREngine
  capturedImageData :: "ImageData option"
  lastResult :: "OCRResult option"
  extractedNumbers :: "string list"
  isStartingCamera :: bool
  capturedLocation :: "location option"
  container :: view
  effects :: "effect list"

definition OCRInterface_new :: OCRInterface where
  "OCRInterface_new =
    \<lparr>cameraManager = CameraManager_new, ocrEngine = OCREngine_new,
     capturedImageData = None, lastResult = None, extractedNumbers = [],
     isStartingCamera = False, capturedLocation = None,
     container = IdleView, effects = []\<rparr>"

text \<open>
  The stage of the workflow and the error message on display are read off the view.
\<close>

datatype stage = Idle | CameraActive | PhotoCaptured | Processing | Results | Error

fun stage_of :: "view \<Rightarrow> stage" where
  "stage_of IdleView = Idle"
| "stage_of CameraView = CameraActive"
| "stage_of CapturedView = PhotoCaptured"
| "stage_of (ProcessingView m p) = Processing"
| "stage_of ResultsView = Results"
| "stage_of (ErrorView m) = Error"

fun errorMessage :: "view \<Rightarrow> string option" where
  "errorMessage (ErrorView m) = Some m"
| "errorMessage v = None"

definition renderIdleView :: "OCRInterface \<Rightarrow> OCRInterface" where
  "renderIdleView s = s\<lparr>container := IdleView\<rparr>"

definition renderCameraView :: "OCRInterface \<Rightarrow> OCRInterface" where
  "renderCameraView s = s\<lparr>container := CameraView\<rparr>"

definition renderError :: "string \<Rightarrow> OCRInterface \<Rightarrow> OCRInterface" where
  "renderError errorMsg s = s\<lparr>container := ErrorView errorMsg\<rparr>"

definition renderCapturedView :: "OCRInterface \<Rightarrow> OCRInterface" where
  "renderCapturedView s =
    (case capturedImageData s of
       None \<Rightarrow> renderError ''No image captured'' s
     | Some img \<Rightarrow> s\<lparr>container := CapturedView\<rparr>)"

definition renderProcessingView :: "OCRInterface \<Rightarrow> OCRInterface" where
  "renderProcessingView s = s\<lparr>container := ProcessingView ''Initializing OCR...'' ''0%''\<rparr>"

definition renderResultsView :: "OCRInterface \<Rightarrow> OCRInterface" where
  "renderResultsView s =
    (case lastResult s of
       None \<Rightarrow> renderError ''No OCR results available'' s
     | Some res \<Rightarrow>
         s\<lparr>extractedNumbers := extractNumberSequences (text' res), container := ResultsView\<rparr>)"

text \<open>\<open>updateProgress\<close> writes the two texts where the container has them.\<close>

definition updateProgress :: "OCRProgress \<Rightarrow> OCRInterface \<Rightarrow> OCRInterface" where
  "updateProgress p s =
    (case container s of
       ProcessingView m pc \<Rightarrow>
         s\<lparr>container := ProcessingView (message p) (string_of_int (progress p) @ ''%'')\<rparr>
     | _ \<Rightarrow> s)"

text \<open>
  \<open>getCaptureLocation\<close>: \<open>null\<close> at once without the capability; otherwise one position
  request, whose answer is a position or an error. The answer \<open>None\<close> is the request
  that never calls back; then the promise does not settle.
\<close>

definition getCaptureLocation_begin :: "Navigator \<Rightarrow> location option + effect list" where
  "getCaptureLocation_begin nav =
    (if \<not> geolocation nav then Inl None else Inr [GetCurrentPosition])"

definition getCaptureLocation_settle :: "thrown + location \<Rightarrow> location option" where
  "getCaptureLocation_settle answer =
    (case answer of
       Inr pos \<Rightarrow> Some \<lparr>latitude = latitude pos, longitude = longitude pos\<rparr>
     | Inl err \<Rightarrow> None)"

definition getCaptureLocation ::
    "Navigator \<Rightarrow> (thrown + location) option \<Rightarrow> location option option \<times> effect list" where
  "getCaptureLocation nav answer =
    (case getCaptureLocation_begin nav of
       Inl r \<Rightarrow> (Some r, [])
     | Inr effs \<Rightarrow> (map_option getCaptureLocation_settle answer, effs))"

subsection \<open>Starting the camera\<close>

text \<open>
  \<open>handleStartCamera\<close> is asynchronous. It runs in pieces, one per \<open>await\<close> on the
  platform: the device list, the 100 ms timer, the stream of the back camera, the stream
  of the front camera. A task says which of these an invocation is waiting for; between
  two pieces any other handler may run.
\<close>

datatype StartTask =
    AwaitDevices
  | AwaitDomUpdate
  | AwaitBackCamera HTMLVideoElement
  | AwaitFrontCamera HTMLVideoElement

datatype answer =
    Devices "thrown + string list"
  | TimerFired
  | Stream "thrown + MediaStream"

definition backCamera :: CameraConfig where
  "backCamera = \<lparr>facingMode = environment, idealWidth = Some 1280, idealHeight = Some 720\<rparr>"

definition frontCamera :: CameraConfig where
  "frontCamera = \<lparr>facingMode = user, idealWidth = Some 1280, idealHeight = Some 720\<rparr>"

text \<open>\<open>container.querySelector(".video-preview")\<close>: only the camera view has the element.\<close>

definition querySelector_video :: "OCRInterface \<Rightarrow> HTMLVideoElement option" where
  "querySelector_video s = (if container s = CameraView then Some VideoPreview else None)"

definition handleStartCamera_finally :: "OCRInterface \<Rightarrow> OCRInterface" where
  "handleStartCamera_finally s = s\<lparr>isStartingCamera := False\<rparr>"

text \<open>The \<open>catch\<close> block, followed by the \<open>finally\<close> block.\<close>

definition handleStartCamera_catch :: "thrown \<Rightarrow> OCRInterface \<Rightarrow> OCRInterface" where
  "handleStartCamera_catch err s =
    (let msg = (if isAppError err then getErrorMessage err else ''Failed to start camera'');
         s1 = renderError msg s;
         (cm, effs) = stopCamera (cameraManager s1)
     in handleStartCamera_finally (s1\<lparr>cameraManager := cm, effects := effects s1 @ effs\<rparr>))"

text \<open>From the result of the availability check to the timer.\<close>

definition handleStartCamera_checked ::
    "bool \<Rightarrow> OCRInterface \<Rightarrow> OCRInterface \<times> StartTask option" where
  "handleStartCamera_checked isAvailable s =
    (if \<not> isAvailable
     then (handleStartCamera_finally
             (renderError
               ''No camera detected. Please ensure your device has a camera and try again.'' s),
           None)
     else (renderCameraView s, Some AwaitDomUpdate))"

text \<open>The entry: the single-flight guard, the flag, the availability check.\<close>

definition handleStartCamera :: "Navigator \<Rightarrow> OCRInterface \<Rightarrow> OCRInterface \<times> StartTask option" where
  "handleStartCamera nav s =
    (if isStartingCamera s then (s, None)
     else
       let s1 = s\<lparr>isStartingCamera := True\<rparr>
       in case checkCameraAvailability_begin nav of
            Inl isAvailable \<Rightarrow> handleStartCamera_checked isAvailable s1
          | Inr effs \<Rightarrow> (s1\<lparr>effects := effects s1 @ effs\<rparr>, Some AwaitDevices))"

text \<open>The second request, made in the inner \<open>catch\<close> block.\<close>

definition handleStartCamera_fallback ::
    "Navigator \<Rightarrow> HTMLVideoElement \<Rightarrow> OCRInterface \<Rightarrow> OCRInterface \<times> StartTask option" where
  "handleStartCamera_fallback nav video s =
    (case requestCameraAccess_begin nav frontCamera of
       Inr effs \<Rightarrow> (s\<lparr>effects := effects s @ effs\<rparr>, Some (AwaitFrontCamera video))
     | Inl err \<Rightarrow> (handleStartCamera_catch err s, None))"

definition handleStartCamera_attach ::
    "HTMLVideoElement \<Rightarrow> OCRInterface \<Rightarrow> OCRInterface \<times> StartTask option" where
  "handleStartCamera_attach video s =
    (case attachToVideoElement video (cameraManager s) of
       Inr cm \<Rightarrow> (handleStartCamera_finally (s\<lparr>cameraManager := cm\<rparr>), None)
     | Inl err \<Rightarrow> (handleStartCamera_catch err s, None))"

text \<open>
  The piece that runs when the awaited answer arrives. An answer of another kind than the
  one awaited resumes nothing.
\<close>

fun handleStartCamera_resume ::
    "Navigator \<Rightarrow> StartTask \<Rightarrow> answer \<Rightarrow> OCRInterface \<Rightarrow> OCRInterface \<times> StartTask option" where
  "handleStartCamera_resume nav AwaitDevices (Devices devices) s =
     handleStartCamera_checked (checkCameraAvailability_settle devices) s"
| "handleStartCamera_resume nav AwaitDomUpdate TimerFired s =
     (case querySelector_video s of
        None \<Rightarrow> (handleStartCamera_catch (new_Error ''Video element not found in DOM'') s, None)
      | Some video \<Rightarrow>
          (case requestCameraAccess_begin nav backCamera of
             Inr effs \<Rightarrow> (s\<lparr>effects := effects s @ effs\<rparr>, Some (AwaitBackCamera video))
           | Inl err \<Rightarrow> handleStartCamera_fallback nav video s))"
| "handleStartCamera_resume nav (AwaitBackCamera video) (Stream strm) s =
     (let (r, cm) = requestCameraAccess_settle strm (cameraManager s);
          s1 = s\<lparr>cameraManager := cm\<rparr>
      in case r of
           Inr granted \<Rightarrow> handleStartCamera_attach video s1
         | Inl err \<Rightarrow> handleStartCamera_fallback nav video s1)"
| "handleStartCamera_resume nav (AwaitFrontCamera video) (Stream strm) s =
     (let (r, cm) = requestCameraAccess_settle strm (cameraManager s);
          s1 = s\<lparr>cameraManager := cm\<rparr>
      in case r of
           Inr granted \<Rightarrow> handleStartCamera_attach video s1
         | Inl err \<Rightarrow> (handleStartCamera_catch err s1, None))"
| "handleStartCamera_resume nav task a s = (s, Some task)"

subsection \<open>The other handlers\<close>

definition handleCapture :: "Canvas \<Rightarrow> OCRInterface \<Rightarrow> OCRInterface" where
  "handleCapture canvas s =
    (case capturePhoto canvas (cameraManager s) of
       Inr img \<Rightarrow>
         (let s1 = s\<lparr>capturedImageData := Some img\<rparr>;
              (cm, effs) = stopCamera (cameraManager s1)
          in renderCapturedView (s1\<lparr>cameraManager := cm, effects := effects s1 @ effs\<rparr>))
     | Inl err \<Rightarrow> renderError ''Failed to capture photo. Please try again.'' s)"

definition handleCancel :: "OCRInterface \<Rightarrow> OCRInterface" where
  "handleCancel s =
    (let (cm, effs) = stopCamera (cameraManager s)
     in renderIdleView (s\<lparr>cameraManager := cm, effects := effects s @ effs\<rparr>))"

definition handleRetake :: "Navigator \<Rightarrow> OCRInterface \<Rightarrow> OCRInterface \<times> StartTask option" where
  "handleRetake nav s = handleStartCamera nav (s\<lparr>capturedImageData := None\<rparr>)"

definition handleReset :: "OCRInterface \<Rightarrow> OCRInterface" where
  "handleReset s =
    renderIdleView (s\<lparr>capturedImageData := None, lastResult := None, capturedLocation := None\<rparr>)"

subsection \<open>Processing\<close>

text \<open>
  What the platform does during one run of \<open>handleProcessOCR\<close>: the answer to the
  position request (\<open>None\<close>: it never calls back), the run of \<open>createWorker\<close>, whether
  the canvas gives a 2d context, and the run of \<open>worker.recognize\<close>.
\<close>

record ProcessRun =
  position :: "(thrown + location) option"
  createWorker :: "Worker WorkerRun"
  canvasContext :: bool
  recognize :: "(string \<times> real) WorkerRun"

definition handleProcessOCR_catch :: "thrown \<Rightarrow> OCRInterface \<Rightarrow> OCRInterface" where
  "handleProcessOCR_catch err s =
    renderError (if isAppError err then getErrorMessage err else ''OCR processing failed'') s"

text \<open>
  The handler runs to its end when every promise it awaits settles. The location promise
  is the only one that may stay open; the handler then stays at its last \<open>await\<close>, with
  the result stored and the processing view on display.
\<close>

definition handleProcessOCR :: "Navigator \<Rightarrow> ProcessRun \<Rightarrow> OCRInterface \<Rightarrow> OCRInterface" where
  "handleProcessOCR nav run s =
    (case capturedImageData s of
       None \<Rightarrow> renderError ''No image to process'' s
     | Some img \<Rightarrow>
         let s1 = renderProcessingView s;
             (locationPromise, effs) = getCaptureLocation nav (position run);
             s2 = s1\<lparr>effects := effects s1 @ effs\<rparr>;
             (r, eng, reported) =
               (if \<not> isReady (ocrEngine s2)
                then initialize True (createWorker run) (ocrEngine s2)
                else (Inr (), ocrEngine s2, []));
             s3 = fold updateProgress reported (s2\<lparr>ocrEngine := eng\<rparr>)
         in case r of
              Inl err \<Rightarrow> handleProcessOCR_catch err s3
            | Inr u \<Rightarrow>
                if \<not> canvasContext run
                then handleProcessOCR_catch (new_Error ''Failed to create canvas context'') s3
                else
                  let (r2, reported2) = recognizeText img None (recognize run) (ocrEngine s3);
                      s4 = fold updateProgress reported2 s3
                  in case r2 of
                       Inl err \<Rightarrow> handleProcessOCR_catch err s4
                     | Inr res \<Rightarrow>
                         (let s5 = s4\<lparr>lastResult := Some res\<rparr>
                          in case locationPromise of
                               None \<Rightarrow> s5
                             | Some loc \<Rightarrow> renderResultsView (s5\<lparr>capturedLocation := loc\<rparr>)))"

text \<open>The location promise settles: no capability, or an answer to the request.\<close>

definition locationSettles :: "Navigator \<Rightarrow> ProcessRun \<Rightarrow> bool" where
  "locationSettles nav run = (if geolocation nav then position run \<noteq> None else True)"

text \<open>The location lookup fails: no capability, or the request answers with an error.\<close>

definition locationFails :: "Navigator \<Rightarrow> ProcessRun \<Rightarrow> bool" where
  "locationFails nav run =
    (if geolocation nav
     then (case position run of Some (Inl err) \<Rightarrow> True | _ \<Rightarrow> False)
     else True)"

text \<open>
  Recognition succeeds: the engine is ready or its worker starts, the canvas gives a
  context, and the worker returns the text \<open>txt\<close>, not blank, with confidence \<open>conf\<close>.
\<close>

definition recognitionSucceeds :: "ProcessRun \<Rightarrow> OCRInterface \<Rightarrow> string \<Rightarrow> real \<Rightarrow> bool" where
  "recognitionSucceeds run s txt conf =
    ((if isReady (ocrEngine s) then True else (case settled (createWorker run) of Inr w \<Rightarrow> True | Inl err \<Rightarrow> False))
     \<and> canvasContext run
     \<and> settled (recognize run) = Inr (txt, conf)
     \<and> trim txt \<noteq> [])"

subsection \<open>Interleaving\<close>

text \<open>
  The events of the page while the camera is started: an awaited answer arrives, or the
  user triggers a handler. The pending invocations of \<open>handleStartCamera\<close> are kept
  oldest first; an answer resumes the oldest.
\<close>

datatype event =
    Answer answer
  | InvokeStartCamera
  | InvokeRetake
  | InvokeCapture Canvas
  | InvokeCancel
  | InvokeReset

fun step :: "Navigator \<Rightarrow> event \<Rightarrow> OCRInterface \<times> StartTask list \<Rightarrow> OCRInterface \<times> StartTask list" where
  "step nav (Answer a) (s, []) = (s, [])"
| "step nav (Answer a) (s, t # ts) =
     (case handleStartCamera_resume nav t a s of
        (s', None) \<Rightarrow> (s', ts)
      | (s', Some t') \<Rightarrow> (s', t' # ts))"
| "step nav InvokeStartCamera (s, ts) =
     (case handleStartCamera nav s of
        (s', None) \<Rightarrow> (s', ts)
      | (s', Some t') \<Rightarrow> (s', ts @ [t']))"
| "step nav InvokeRetake (s, ts) =
     (case handleRetake nav s of
        (s', None) \<Rightarrow> (s', ts)
      | (s', Some t') \<Rightarrow> (s', ts @ [t']))"
| "step nav (InvokeCapture canvas) (s, ts) = (handleCapture canvas s, ts)"
| "step nav InvokeCancel (s, ts) = (handleCancel s, ts)"
| "step nav InvokeReset (s, ts) = (handleReset s, ts)"

definition run_events ::
    "Navigator \<Rightarrow> event list \<Rightarrow> OCRInterface \<times> StartTask list \<Rightarrow> OCRInterface \<times> StartTask list" where
  "run_events nav evs c = fold (step nav) evs c"

text \<open>
  The invariant of the page: the flag is set exactly while one invocation is pending, and
  never more than one is.
\<close>

definition single_flight :: "OCRInterface \<times> StartTask list \<Rightarrow> bool" where
  "single_flight c = (if isStartingCamera (fst c) then length (snd c) = 1 else snd c = [])"

text \<open>The stream requests made so far.\<close>

fun isStreamRequest :: "effect \<Rightarrow> bool" where
  "isStreamRequest (GetUserMedia config) = True"
| "isStreamRequest e = False"

definition streamRequests :: "OCRInterface \<Rightarrow> nat" where
  "streamRequests s = length (filter isStreamRequest (effects s))"

section \<open>Concrete inputs\<close>

text \<open>
  A platform with both capabilities, a one-track stream of a camera, and a session run
  on them: the camera is started, a photo is taken, the photo is processed.
\<close>

definition ex_nav :: Navigator where
  "ex_nav = \<lparr>getUserMedia = True, geolocation = True\<rparr>"

definition ex_stream :: MediaStream where
  "ex_stream = [\<lparr>kind = ''video'', settingsDeviceId = Some ''cam0''\<rparr>]"

definition ex_active :: CameraManager where
  "ex_active =
    \<lparr>state = \<lparr>stream = Some ex_stream, isActive = True, deviceId = Some ''cam0''\<rparr>,
     videoElement = Some VideoPreview\<rparr>"

definition ex_engine :: OCREngine where
  "ex_engine = \<lparr>worker = Some Worker, isInitialized = True, onProgressCallback = True\<rparr>"

definition ex_image :: ImageData where
  "ex_image = \<lparr>width = 2, height = 1, data = [0, 0, 0, 255, 255, 255, 255, 255]\<rparr>"

definition ex_blank_run :: "(string \<times> real) WorkerRun" where
  "ex_blank_run = \<lparr>logger = [(''recognizing text'', 1 / 2)], settled = Inr ('' '', 0)\<rparr>"

definition ex_fault_run :: "(string \<times> real) WorkerRun" where
  "ex_fault_run = \<lparr>logger = [], settled = Inl (Rejected (Thrown_String ''Error: aborted''))\<rparr>"

text \<open>
  Two more rejections of the worker: with an error object that is itself named
  \<open>NO_TEXT_FOUND\<close>, and with \<open>undefined\<close>.
\<close>

definition ex_named_run :: "(string \<times> real) WorkerRun" where
  "ex_named_run = \<lparr>logger = [], settled = Inl (Rejected (JSError ''NO_TEXT_FOUND'' ''boom''))\<rparr>"

definition ex_nullish_run :: "(string \<times> real) WorkerRun" where
  "ex_nullish_run = \<lparr>logger = [], settled = Inl Rejected_nullish\<rparr>"

definition ex_text_run :: "(string \<times> real) WorkerRun" where
  "ex_text_run =
    \<lparr>logger = [(''recognizing text'', 1)], settled = Inr (''order 12 34 5678 thanks'', 87)\<rparr>"

text \<open>The camera started from the new interface, with the back camera granted.\<close>

definition ex_start_events :: "event list" where
  "ex_start_events =
    [InvokeStartCamera, Answer (Devices (Inr [''audioinput'', ''videoinput''])),
     Answer TimerFired, Answer (Stream (Inr ex_stream))]"

definition ex_started :: OCRInterface where
  "ex_started = fst (run_events ex_nav ex_start_events (OCRInterface_new, []))"

text \<open>A canvas that gives a context, and one that gives none.\<close>

definition ex_canvas :: Canvas where
  "ex_canvas =
    \<lparr>videoWidth = 2, videoHeight = 1, context2d = True,
     pixels = [0, 0, 0, 255, 255, 255, 255, 255]\<rparr>"

definition ex_no_context :: Canvas where
  "ex_no_context = \<lparr>videoWidth = 2, videoHeight = 1, context2d = False, pixels = []\<rparr>"

definition ex_captured :: OCRInterface where
  "ex_captured = handleCapture ex_canvas ex_started"

text \<open>
  A processing run in which the worker starts and reads a text, and the position request
  times out.
\<close>

definition ex_process_run :: ProcessRun where
  "ex_process_run =
    \<lparr>position = Some (Inl (JSError ''GeolocationPositionError'' ''Timeout expired'')),
     createWorker = \<lparr>logger = [(''loading tesseract core'', 1)], settled = Inr Worker\<rparr>,
     canvasContext = True,
     recognize = ex_text_run\<rparr>"

definition ex_results :: OCRInterface where
  "ex_results = handleProcessOCR ex_nav ex_process_run ex_captured"

text \<open>
  A start of the camera that is still waiting for the device list, and three ways the
  platform goes on: a video device is listed, the timer fires and the back camera is
  granted; no video device is listed; a video device is listed, the timer fires, the back
  camera is not found and the front camera is granted.
\<close>

definition ex_pending_events :: "event list" where
  "ex_pending_events = [InvokeStartCamera]"

definition ex_granted_events :: "event list" where
  "ex_granted_events =
    [Answer (Devices (Inr [''videoinput''])), Answer TimerFired, Answer (Stream (Inr ex_stream))]"

definition ex_unavailable_events :: "event list" where
  "ex_unavailable_events = [Answer (Devices (Inr [''audioinput'']))]"

definition ex_fallback_events :: "event list" where
  "ex_fallback_events =
    [Answer (Devices (Inr [''videoinput''])), Answer TimerFired,
     Answer (Stream (Inl (JSError ''NotFoundError'' ''Requested device not found''))),
     Answer (Stream (Inr ex_stream))]"

section \<open>The recognition engine: failure kinds, language, progress\<close>

lemma dropWhile_all: "\<forall>c\<in>set cs. P c \<Longrightarrow> dropWhile P cs = []"
  by (induction cs) auto

lemma trim_blank: "\<forall>c\<in>set cs. isSpace c \<Longrightarrow> trim cs = []"
  by (simp add: trim_def dropWhile_all)

lemma ex_engine_ready: "isReady ex_engine"
  by (simp add: isReady_def ex_engine_def)

text \<open>
  C4, as the code has it. On an initialized engine, a worker result whose text is empty
  or consists of whitespace only makes \<open>recognizeText\<close> fail with \<open>NO_TEXT_FOUND\<close>. A
  rejection of the worker with an error object or a string fails with
  \<open>PROCESSING_FAILED\<close> when the name of the value is not \<open>NO_TEXT_FOUND\<close>, and is thrown
  again as it is when the name is \<open>NO_TEXT_FOUND\<close>: the \<open>catch\<close> block tells its own
  error from the others by the name. The two errors are different.
\<close>

theorem recognizeText_failure_kinds:
  assumes "isReady eng"
  shows "(settled run = Inr (txt, conf) \<and> (\<forall>c\<in>set txt. isSpace c) \<longrightarrow>
            fst (recognizeText img lang run eng) = Inl (createError (OCRError_str NO_TEXT_FOUND)))
       \<and> (settled run = Inl (Rejected err)
            \<and> name_of err \<noteq> Some (OCRError_str NO_TEXT_FOUND) \<longrightarrow>
            fst (recognizeText img lang run eng)
              = Inl (createError (OCRError_str PROCESSING_FAILED)))
       \<and> (settled run = Inl (Rejected err)
            \<and> name_of err = Some (OCRError_str NO_TEXT_FOUND) \<longrightarrow>
            fst (recognizeText img lang run eng) = Inl err)
       \<and> createError (OCRError_str NO_TEXT_FOUND) \<noteq> createError (OCRError_str PROCESSING_FAILED)"
  using assms
  by (auto simp: recognizeText_def recognizeText_catch_def Let_def isReady_def createError_def
        trim_blank)

theorem recognizeText_failure_kinds_witness:
  "fst (recognizeText ex_image None ex_blank_run ex_engine)
     = Inl (JSError ''NO_TEXT_FOUND'' ''NO_TEXT_FOUND'')
   \<and> fst (recognizeText ex_image None ex_fault_run ex_engine)
     = Inl (JSError ''PROCESSING_FAILED'' ''PROCESSING_FAILED'')
   \<and> fst (recognizeText ex_image None ex_named_run ex_engine)
     = Inl (JSError ''NO_TEXT_FOUND'' ''boom'')"
proof -
  have b: "settled ex_blank_run = Inr ('' '', 0) \<and> (\<forall>c\<in>set '' ''. isSpace c)"
    by (simp add: ex_blank_run_def isSpace_def)
  have f: "settled ex_fault_run = Inl (Rejected (Thrown_String ''Error: aborted''))
           \<and> name_of (Thrown_String ''Error: aborted'') \<noteq> Some (OCRError_str NO_TEXT_FOUND)"
    by (simp add: ex_fault_run_def)
  have n: "settled ex_named_run = Inl (Rejected (JSError ''NO_TEXT_FOUND'' ''boom''))
           \<and> name_of (JSError ''NO_TEXT_FOUND'' ''boom'') = Some (OCRError_str NO_TEXT_FOUND)"
    by (simp add: ex_named_run_def)
  show ?thesis
    using
      recognizeText_failure_kinds [OF ex_engine_ready, of ex_blank_run "'' ''" 0 ex_image None]
      recognizeText_failure_kinds [OF ex_engine_ready, of ex_fault_run _ _ ex_image None
        "Thrown_String ''Error: aborted''"]
      recognizeText_failure_kinds [OF ex_engine_ready, of ex_named_run _ _ ex_image None
        "JSError ''NO_TEXT_FOUND'' ''boom''"]
      b f n
    by (simp add: createError_def)
qed

text \<open>
  The claim as the specification states it gives \<open>PROCESSING_FAILED\<close> to every
  recognition fault other than the blank text. Here the engine is initialized and the
  worker rejects with an error object named \<open>NO_TEXT_FOUND\<close>: the call fails with that
  object, not with \<open>PROCESSING_FAILED\<close>, and no \<open>error\<close> progress is reported. When the
  worker rejects with \<open>undefined\<close>, the call fails with a \<open>TypeError\<close>.
\<close>

theorem recognizeText_rethrows_named_rejection:
  "isReady ex_engine
   \<and> recognizeText ex_image None ex_named_run ex_engine
     = (Inl (JSError ''NO_TEXT_FOUND'' ''boom''),
        [\<lparr>status = recognizing, progress = 0, message = ''Processing image...''\<rparr>])
   \<and> JSError ''NO_TEXT_FOUND'' ''boom'' \<noteq> createError (OCRError_str PROCESSING_FAILED)
   \<and> fst (recognizeText ex_image None ex_nullish_run ex_engine)
     = Inl (JSError ''TypeError'' ''Cannot read properties of undefined'')"
  by (simp add: recognizeText_def recognizeText_catch_def ex_engine_def ex_named_run_def
        ex_nullish_run_def isReady_def reportProgress_def createError_def)

text \<open>
  C9. When \<open>recognizeText\<close> succeeds, the language of its result is the language argument
  of the call, \<open>eng\<close> when the argument is left out, whatever the worker recognized.
\<close>

theorem recognizeText_language:
  "fst (recognizeText img lang run eng) = Inr res \<Longrightarrow>
     language res = (case lang of None \<Rightarrow> ''eng'' | Some l \<Rightarrow> l)"
  by (auto simp: recognizeText_def recognizeText_catch_def Let_def
        split: if_splits sum.splits prod.splits rejection.splits)

theorem recognizeText_language_witness:
  "language (projr (fst (recognizeText ex_image None ex_text_run ex_engine))) = ''eng''
   \<and> language (projr (fst (recognizeText ex_image (Some ''deu'') ex_text_run ex_engine))) = ''deu''"
proof -
  have r: "\<And>lang. fst (recognizeText ex_image lang ex_text_run ex_engine)
          = Inr \<lparr>text' = ''order 12 34 5678 thanks'', confidence = 87,
                 language = (case lang of None \<Rightarrow> ''eng'' | Some l \<Rightarrow> l)\<rparr>"
    by (simp add: recognizeText_def ex_engine_def ex_text_run_def trim_def isSpace_def Let_def)
  show ?thesis
    using recognizeText_language [OF r [of None]]
      recognizeText_language [OF r [of "Some ''deu''"]]
    by (simp add: r)
qed

text \<open>
  C10. On an initialized engine with a progress callback, when the worker returns a text
  that is empty or whitespace only, the callback receives the \<open>recognizing\<close> event, the
  events of the worker's logger and then the \<open>completed\<close> event with progress 100, and
  the call fails with \<open>NO_TEXT_FOUND\<close>: the \<open>completed\<close> event is the last thing reported
  before the failure, and no \<open>error\<close> event follows it.
\<close>

theorem recognizeText_completed_then_no_text:
  assumes "isReady eng" and "onProgressCallback eng"
    and "settled run = Inr (txt, conf)" and "\<forall>c\<in>set txt. isSpace c"
  shows "recognizeText img lang run eng =
           (Inl (createError (OCRError_str NO_TEXT_FOUND)),
            \<lparr>status = recognizing, progress = 0, message = ''Processing image...''\<rparr>
              # concat (map (handleTesseractLogger eng) (logger run))
              @ [\<lparr>status = completed, progress = 100,
                  message = ''Text extraction complete''\<rparr>])"
  using assms
  by (auto simp: recognizeText_def recognizeText_catch_def Let_def isReady_def createError_def
        trim_blank reportProgress_def)

theorem recognizeText_completed_then_no_text_witness:
  "recognizeText ex_image None ex_blank_run ex_engine =
     (Inl (JSError ''NO_TEXT_FOUND'' ''NO_TEXT_FOUND''),
      [\<lparr>status = recognizing, progress = 0, message = ''Processing image...''\<rparr>,
       \<lparr>status = recognizing, progress = 50, message = ''Extracting text... 50%''\<rparr>,
       \<lparr>status = completed, progress = 100, message = ''Text extraction complete''\<rparr>])"
proof -
  have cb: "onProgressCallback ex_engine" by (simp add: ex_engine_def)
  have st: "settled ex_blank_run = Inr ('' '', 0)" by (simp add: ex_blank_run_def)
  have bl: "\<forall>c\<in>set '' ''. isSpace c" by (simp add: isSpace_def)
  have lg: "concat (map (handleTesseractLogger ex_engine) (logger ex_blank_run))
            = [\<lparr>status = recognizing, progress = 50, message = ''Extracting text... 50%''\<rparr>]"
    by (simp add: ex_engine_def ex_blank_run_def handleTesseractLogger_def progressMap_def
          reportProgress_def formatProgressMessage_def messageMap_def string_of_int_def)
  show ?thesis
    using recognizeText_completed_then_no_text [OF ex_engine_ready cb st bl, of ex_image None]
    by (simp add: lg createError_def)
qed

section \<open>The camera session: failure kinds, stopping\<close>

text \<open>
  C7, as the code has it. Without the capability \<open>requestCameraAccess\<close> fails with
  \<open>NOT_SUPPORTED\<close> and makes no stream request. With it, one request is made, and a
  rejection fails with \<open>PERMISSION_DENIED\<close> for \<open>NotAllowedError\<close> and
  \<open>PermissionDeniedError\<close>, with \<open>NO_CAMERA\<close> for \<open>NotFoundError\<close> and
  \<open>DevicesNotFoundError\<close>, with \<open>NOT_SUPPORTED\<close> for \<open>NotSupportedError\<close>, and with
  \<open>DEVICE_ERROR\<close> for every other rejection; the manager is left as it was.
\<close>

theorem requestCameraAccess_failure_kinds:
  "(\<not> getUserMedia nav \<longrightarrow>
      requestCameraAccess nav config answer cm
        = (Inl (createError (CameraError_str NOT_SUPPORTED)), cm, []))
   \<and> (getUserMedia nav \<and> answer = Inl err \<longrightarrow>
        requestCameraAccess nav config answer cm =
          (Inl (createError (CameraError_str
             (if name_of err \<in> {Some ''NotAllowedError'', Some ''PermissionDeniedError''}
              then PERMISSION_DENIED
              else if name_of err \<in> {Some ''NotFoundError'', Some ''DevicesNotFoundError''}
              then NO_CAMERA
              else if name_of err = Some ''NotSupportedError'' then NOT_SUPPORTED
              else DEVICE_ERROR))),
           cm, [GetUserMedia config]))
   \<and> (getUserMedia nav \<and> answer = Inr strm \<longrightarrow>
        fst (requestCameraAccess nav config answer cm) = Inr strm)"
  by (simp add: requestCameraAccess_def requestCameraAccess_begin_def
        requestCameraAccess_settle_def)

theorem requestCameraAccess_failure_kinds_witness:
  "requestCameraAccess \<lparr>getUserMedia = False, geolocation = True\<rparr> backCamera
       (Inr ex_stream) CameraManager_new
     = (Inl (JSError ''NOT_SUPPORTED'' ''NOT_SUPPORTED''), CameraManager_new, [])
   \<and> requestCameraAccess ex_nav backCamera
       (Inl (JSError ''NotAllowedError'' ''Permission denied'')) CameraManager_new
     = (Inl (JSError ''PERMISSION_DENIED'' ''PERMISSION_DENIED''), CameraManager_new,
        [GetUserMedia backCamera])
   \<and> requestCameraAccess ex_nav backCamera
       (Inl (JSError ''NotFoundError'' ''Requested device not found'')) CameraManager_new
     = (Inl (JSError ''NO_CAMERA'' ''NO_CAMERA''), CameraManager_new, [GetUserMedia backCamera])
   \<and> requestCameraAccess ex_nav backCamera
       (Inl (JSError ''NotReadableError'' ''Could not start video source'')) CameraManager_new
     = (Inl (JSError ''DEVICE_ERROR'' ''DEVICE_ERROR''), CameraManager_new,
        [GetUserMedia backCamera])
   \<and> fst (requestCameraAccess ex_nav backCamera (Inr ex_stream) CameraManager_new)
     = Inr ex_stream"
  using
    requestCameraAccess_failure_kinds [where nav = "\<lparr>getUserMedia = False, geolocation = True\<rparr>"
      and config = backCamera and answer = "Inr ex_stream" and cm = CameraManager_new]
    requestCameraAccess_failure_kinds [where nav = ex_nav and config = backCamera
      and answer = "Inl (JSError ''NotAllowedError'' ''Permission denied'')"
      and err = "JSError ''NotAllowedError'' ''Permission denied''" and cm = CameraManager_new]
    requestCameraAccess_failure_kinds [where nav = ex_nav and config = backCamera
      and answer = "Inl (JSError ''NotFoundError'' ''Requested device not found'')"
      and err = "JSError ''NotFoundError'' ''Requested device not found''"
      and cm = CameraManager_new]
    requestCameraAccess_failure_kinds [where nav = ex_nav and config = backCamera
      and answer = "Inl (JSError ''NotReadableError'' ''Could not start video source'')"
      and err = "JSError ''NotReadableError'' ''Could not start video source''"
      and cm = CameraManager_new]
    requestCameraAccess_failure_kinds [where nav = ex_nav and config = backCamera
      and answer = "Inr ex_stream" and strm = ex_stream and cm = CameraManager_new]
  by (simp add: ex_nav_def createError_def)

text \<open>
  The claim as the specification states it gives \<open>DEVICE_ERROR\<close> to every fault of the
  stream request that is neither a denial nor a missing device, and \<open>NOT_SUPPORTED\<close> only
  before any request. A request rejected with \<open>NotSupportedError\<close> is such a fault: the
  request has been made, and the failure is \<open>NOT_SUPPORTED\<close>, not \<open>DEVICE_ERROR\<close>.
\<close>

theorem requestCameraAccess_NotSupportedError:
  "requestCameraAccess ex_nav backCamera
       (Inl (JSError ''NotSupportedError'' ''Not supported'')) CameraManager_new
     = (Inl (createError (CameraError_str NOT_SUPPORTED)), CameraManager_new,
        [GetUserMedia backCamera])
   \<and> createError (CameraError_str NOT_SUPPORTED) \<noteq> createError (CameraError_str DEVICE_ERROR)"
  by (simp add: requestCameraAccess_def requestCameraAccess_begin_def
        requestCameraAccess_settle_def ex_nav_def createError_def)

text \<open>
  A manager that holds no stream is inactive, has no device id and no video element:
  the stream and the flag are set together, and only \<open>stopCamera\<close> clears them.
\<close>

lemma reachable_inactive:
  "reachable cm \<Longrightarrow> stream (state cm) = None \<Longrightarrow>
     \<not> isActive (state cm) \<and> deviceId (state cm) = None \<and> videoElement cm = None"
proof (induction rule: reachable.induct)
  case reach_new
  then show ?case by (simp add: CameraManager_new_def)
next
  case (reach_request cm nav config answer)
  then show ?case
    by (auto simp: requestCameraAccess_def requestCameraAccess_begin_def
          requestCameraAccess_settle_def split: if_splits sum.splits)
next
  case (reach_attach cm video cm')
  then show ?case by (auto simp: attachToVideoElement_def split: if_splits)
next
  case (reach_stop cm)
  then show ?case by (auto simp: stopCamera_def split: option.splits)
qed

lemma stopCamera_inactive:
  "stream (state (fst (stopCamera cm))) = None \<and> \<not> isActive (state (fst (stopCamera cm)))
   \<and> deviceId (state (fst (stopCamera cm))) = None \<and> videoElement (fst (stopCamera cm)) = None"
  by (auto simp: stopCamera_def split: option.splits)

lemma stopCamera_fixed:
  "stream (state cm) = None \<Longrightarrow> \<not> isActive (state cm) \<Longrightarrow> deviceId (state cm) = None
     \<Longrightarrow> videoElement cm = None \<Longrightarrow> stopCamera cm = (cm, [])"
  by (simp add: stopCamera_def)

lemma stopCamera_times_inactive:
  "0 < n \<Longrightarrow> stream (state (fst (stopCamera_times n cm))) = None
      \<and> \<not> isActive (state (fst (stopCamera_times n cm)))
      \<and> deviceId (state (fst (stopCamera_times n cm))) = None"
proof (induction n arbitrary: cm)
  case 0
  then show ?case by simp
next
  case (Suc n)
  show ?case
  proof (cases n)
    case 0
    then show ?thesis using stopCamera_inactive [of cm] by (simp add: split_beta)
  next
    case (Suc m)
    then show ?thesis using Suc.IH [of "fst (stopCamera cm)"] by (simp add: split_beta)
  qed
qed

text \<open>
  C8. Stopping a manager that holds no stream changes nothing and stops no track, and the
  manager is inactive; stopping any number of times, at least once, from any state ends
  inactive with the stream and the device id cleared; and a second stop right after a
  stop changes nothing. \<open>stopCamera\<close> is a total function with no error result.
\<close>

theorem stopCamera_idempotent:
  "(reachable cm \<and> stream (state cm) = None \<longrightarrow>
      stopCamera cm = (cm, []) \<and> \<not> isActive (state cm))
   \<and> (0 < n \<longrightarrow> stream (state (fst (stopCamera_times n cm))) = None
                \<and> \<not> isActive (state (fst (stopCamera_times n cm)))
                \<and> deviceId (state (fst (stopCamera_times n cm))) = None)
   \<and> stopCamera (fst (stopCamera cm)) = (fst (stopCamera cm), [])"
  using reachable_inactive [of cm] stopCamera_fixed [of cm] stopCamera_times_inactive [of n cm]
    stopCamera_inactive [of cm] stopCamera_fixed [of "fst (stopCamera cm)"]
  by blast

theorem stopCamera_idempotent_witness:
  "stopCamera CameraManager_new = (CameraManager_new, [])
   \<and> \<not> isActive (state CameraManager_new)
   \<and> fst (stopCamera_times 3 ex_active) = CameraManager_new
   \<and> stopCamera (fst (stopCamera ex_active)) = (CameraManager_new, [])"
proof -
  have r: "reachable CameraManager_new \<and> stream (state CameraManager_new) = None"
    by (simp add: reach_new) (simp add: CameraManager_new_def)
  have s1: "fst (stopCamera ex_active) = CameraManager_new"
    by (simp add: stopCamera_def ex_active_def CameraManager_new_def)
  have s3: "fst (stopCamera_times 3 ex_active) = CameraManager_new"
    by (simp add: numeral_3_eq_3 split_beta s1) (simp add: stopCamera_def CameraManager_new_def)
  show ?thesis
    using stopCamera_idempotent [of CameraManager_new 3] stopCamera_idempotent [of ex_active 3] r
    by (simp add: s1 s3)
qed

text \<open>
  C3. The camera is started and active; the capture fails because the canvas gives no
  context. The error view is rendered, and the camera is still active, holds its stream,
  and no track has been stopped: \<open>handleCapture\<close> has no \<open>stopCamera\<close> in its \<open>catch\<close>
  block.
\<close>

theorem handleCapture_failure_leaves_camera_active:
  "capturePhoto ex_no_context (cameraManager ex_started)
     = Inl (new_Error ''Failed to get canvas context'')
   \<and> container (handleCapture ex_no_context ex_started)
     = ErrorView ''Failed to capture photo. Please try again.''
   \<and> isActive (state (cameraManager (handleCapture ex_no_context ex_started)))
   \<and> stream (state (cameraManager (handleCapture ex_no_context ex_started))) = Some ex_stream
   \<and> effects (handleCapture ex_no_context ex_started)
     = [EnumerateDevices, GetUserMedia backCamera]"
  by (simp add: ex_started_def ex_start_events_def ex_nav_def ex_stream_def ex_no_context_def
        run_events_def handleStartCamera_def checkCameraAvailability_begin_def
        checkCameraAvailability_settle_def handleStartCamera_checked_def renderCameraView_def
        querySelector_video_def requestCameraAccess_begin_def requestCameraAccess_settle_def
        handleStartCamera_attach_def attachToVideoElement_def handleStartCamera_finally_def
        OCRInterface_new_def CameraManager_new_def OCREngine_new_def getVideoTracks_def
        handleCapture_def capturePhoto_def renderError_def)

text \<open>
  The sibling path: the \<open>catch\<close> block of \<open>handleStartCamera\<close> does stop the camera, so
  every failure of a start that reaches it ends with the camera inactive.
\<close>

lemma handleStartCamera_catch_stops:
  "\<not> isActive (state (cameraManager (handleStartCamera_catch err s)))
   \<and> stream (state (cameraManager (handleStartCamera_catch err s))) = None"
  using stopCamera_inactive [of "cameraManager s"]
  by (simp add: handleStartCamera_catch_def handleStartCamera_finally_def renderError_def
        Let_def split_beta)

section \<open>Number extraction\<close>

lemmas extract_defs =
  extractNumberSequences_def String_match_def trim_def inClass_def isDigit_def isSpace_def
  digitCount_def

text \<open>The examples of the specification.\<close>

lemma extract_examples:
  "extractNumberSequences ''order 12 34 5678 thanks'' = [''12 34 5678'']"
  "extractNumberSequences ''no numbers here'' = []"
  "extractNumberSequences ''id AB 123456'' = []"
  by (simp_all add: extract_defs)

text \<open>Matches keep their order and are not deduplicated.\<close>

lemma extract_repeats:
  "extractNumberSequences ''a 12345678 b 87654321 c 12345678''
     = [''12345678'', ''87654321'', ''12345678'']"
  by (simp add: extract_defs)

text \<open>
  What the two filters keep, for every text: a sequence with a digit and with two
  characters or more that are not whitespace.
\<close>

lemma extractNumberSequences_kept:
  "seq \<in> set (extractNumberSequences cs) \<Longrightarrow>
     list_ex isDigit seq \<and> 2 \<le> length (filter (\<lambda>c. \<not> isSpace c) seq)"
  by (auto simp: extractNumberSequences_def split: option.splits)

text \<open>
  The regular expression finds the maximal runs of length 8 or more.
\<close>

lemma classRuns_Nil: "classRuns [] = []"
  by (simp add: classRuns.simps)

lemma classRuns_skip: "\<not> inClass c \<Longrightarrow> classRuns (c # cs) = classRuns cs"
  by (simp add: classRuns.simps [of "c # cs"] classRuns.simps [of cs])

lemma classRuns_run:
  "inClass c \<Longrightarrow>
     classRuns (c # cs) = takeWhile inClass (c # cs) # classRuns (dropWhile inClass (c # cs))"
  by (simp add: classRuns.simps [of "c # cs"])

lemma drop_takeWhile: "drop (length (takeWhile P xs)) xs = dropWhile P xs"
  by (induction xs) auto

lemma classRuns_short_run:
  "length (takeWhile inClass cs) < 8 \<Longrightarrow>
     filter (\<lambda>r. 8 \<le> length r) (classRuns cs)
       = filter (\<lambda>r. 8 \<le> length r) (classRuns (dropWhile inClass cs))"
proof (cases cs)
  case Nil
  then show ?thesis by simp
next
  case (Cons c cs')
  assume short: "length (takeWhile inClass cs) < 8"
  show ?thesis
  proof (cases "inClass c")
    case True
    with short Cons show ?thesis by (simp add: classRuns_run)
  next
    case False
    with Cons show ?thesis by simp
  qed
qed

lemma matchAll_maximal_runs: "matchAll cs = filter (\<lambda>r. 8 \<le> length r) (classRuns cs)"
proof (induction cs rule: matchAll.induct)
  case 1
  then show ?case by (simp add: classRuns_Nil)
next
  case (2 c cs)
  let ?run = "takeWhile inClass (c # cs)"
  show ?case
  proof (cases "inClass c")
    case False
    then have "\<not> 8 \<le> length ?run" by simp
    with 2 False show ?thesis by (simp add: classRuns_skip Let_def)
  next
    case True
    show ?thesis
    proof (cases "8 \<le> length ?run")
      case long: True
      have "matchAll (c # cs) = ?run # matchAll (drop (length ?run) (c # cs))"
        using long by (simp add: Let_def del: drop_Suc_Cons)
      also have "\<dots> = ?run # filter (\<lambda>r. 8 \<le> length r) (classRuns (drop (length ?run) (c # cs)))"
        using 2(1) [OF refl long] by simp
      also have "drop (length ?run) (c # cs) = dropWhile inClass (c # cs)"
        by (rule drop_takeWhile)
      finally show ?thesis using long True by (simp add: classRuns_run)
    next
      case short: False
      then have lt: "length (takeWhile inClass cs) < 8" using True by simp
      have "matchAll (c # cs) = matchAll cs" using short by (simp add: Let_def)
      also have "\<dots> = filter (\<lambda>r. 8 \<le> length r) (classRuns cs)"
        using 2(2) [OF refl short] .
      also have "\<dots> = filter (\<lambda>r. 8 \<le> length r) (classRuns (dropWhile inClass cs))"
        using lt by (rule classRuns_short_run)
      also have "\<dots> = filter (\<lambda>r. 8 \<le> length r) (classRuns (c # cs))"
        using True short by (simp add: classRuns_run)
      finally show ?thesis .
    qed
  qed
qed

text \<open>
  The code against the specification's wording: the match of the regular expression is
  the list of the maximal runs of length 8 or more, so the two differ in the last filter
  only, and every sequence the specification keeps the code keeps too.
\<close>

lemma extract_refines:
  "extractNumberSequences cs =
     filter (\<lambda>seq. 2 \<le> length (filter (\<lambda>c. \<not> isSpace c) seq))
       (filter (\<lambda>seq. list_ex isDigit seq)
         (map trim (filter (\<lambda>r. 8 \<le> length r) (classRuns cs))))"
  by (simp add: extractNumberSequences_def String_match_def matchAll_maximal_runs
        split: list.splits)

lemma spec_extract_subset: "set (spec_extract cs) \<subseteq> set (extractNumberSequences cs)"
proof -
  have "digitCount seq \<le> length (filter (\<lambda>c. \<not> isSpace c) seq)" for seq
    unfolding digitCount_def
    by (induction seq) (auto simp: isDigit_def isSpace_def)
  then show ?thesis
    by (auto simp: extract_refines spec_extract_def intro: order_trans)
qed

text \<open>
  C2. A line with a dashed leader and one digit: the run \<open>---------- 5\<close> has a single
  digit, and the extractor returns it, where the extractor of the specification returns
  nothing. The last filter counts the characters that are not whitespace, so \<open>+\<close> and \<open>-\<close>
  count as well as digits; the comment beside it and the claim say "at least 2 digits".
\<close>

theorem extractNumberSequences_one_digit:
  "extractNumberSequences ''Total ---------- 5'' = [''---------- 5'']
   \<and> digitCount ''---------- 5'' = 1
   \<and> spec_extract ''Total ---------- 5'' = []"
  by (simp add: extract_defs spec_extract_def classRuns.simps)

section \<open>Reset\<close>

text \<open>
  What \<open>handleReset\<close> does to every state: the idle view, no frame, no result, no
  location, no error message on display; the extracted numbers stay as they were.
\<close>

lemma handleReset_fields:
  "stage_of (container (handleReset s)) = Idle
   \<and> capturedImageData (handleReset s) = None
   \<and> lastResult (handleReset s) = None
   \<and> capturedLocation (handleReset s) = None
   \<and> errorMessage (container (handleReset s)) = None
   \<and> extractedNumbers (handleReset s) = extractedNumbers s"
  by (simp add: handleReset_def renderIdleView_def)

lemmas start_defs =
  run_events_def handleStartCamera_def checkCameraAvailability_begin_def
  checkCameraAvailability_settle_def handleStartCamera_checked_def renderCameraView_def
  querySelector_video_def requestCameraAccess_begin_def requestCameraAccess_settle_def
  handleStartCamera_attach_def attachToVideoElement_def handleStartCamera_finally_def
  handleStartCamera_fallback_def handleStartCamera_catch_def
  OCRInterface_new_def CameraManager_new_def OCREngine_new_def getVideoTracks_def

lemma ex_started_eq:
  "ex_started =
    \<lparr>cameraManager = ex_active, ocrEngine = OCREngine_new,
     capturedImageData = None, lastResult = None, extractedNumbers = [],
     isStartingCamera = False, capturedLocation = None,
     container = CameraView, effects = [EnumerateDevices, GetUserMedia backCamera]\<rparr>"
  by (simp add: ex_started_def ex_start_events_def ex_nav_def ex_stream_def ex_active_def
        start_defs)

lemma ex_captured_eq:
  "ex_captured =
    \<lparr>cameraManager = CameraManager_new, ocrEngine = OCREngine_new,
     capturedImageData = Some ex_image, lastResult = None, extractedNumbers = [],
     isStartingCamera = False, capturedLocation = None,
     container = CapturedView,
     effects = [EnumerateDevices, GetUserMedia backCamera] @ map TrackStop ex_stream\<rparr>"
  by (simp add: ex_captured_def ex_started_eq handleCapture_def capturePhoto_def ex_active_def
        ex_canvas_def ex_image_def stopCamera_def renderCapturedView_def CameraManager_new_def)

lemma ex_results_eq:
  "ex_results =
    \<lparr>cameraManager = CameraManager_new, ocrEngine = ex_engine,
     capturedImageData = Some ex_image,
     lastResult =
       Some \<lparr>text' = ''order 12 34 5678 thanks'', confidence = 87, language = ''eng''\<rparr>,
     extractedNumbers = [''12 34 5678''],
     isStartingCamera = False, capturedLocation = None,
     container = ResultsView,
     effects = [EnumerateDevices, GetUserMedia backCamera] @ map TrackStop ex_stream
       @ [GetCurrentPosition]\<rparr>"
  by (simp add: ex_results_def ex_captured_eq handleProcessOCR_def ex_process_run_def ex_nav_def
        getCaptureLocation_def getCaptureLocation_begin_def getCaptureLocation_settle_def
        renderProcessingView_def isReady_def OCREngine_new_def initialize_def reportProgress_def
        handleTesseractLogger_def progressMap_def formatProgressMessage_def messageMap_def
        string_of_int_def updateProgress_def recognizeText_def ex_text_run_def trim_def
        isSpace_def renderResultsView_def extract_examples(1) ex_engine_def Let_def)

text \<open>
  C1. A session that reached the results with one extracted number is reset. The stage is
  idle, and frame, result and location are cleared, but the list of extracted numbers
  still holds the number of the session before: \<open>handleReset\<close> assigns three of the four
  fields of the session and leaves \<open>extractedNumbers\<close> out.
\<close>

theorem handleReset_keeps_extractedNumbers:
  "stage_of (container ex_results) = Results
   \<and> extractedNumbers ex_results = [''12 34 5678'']
   \<and> stage_of (container (handleReset ex_results)) = Idle
   \<and> capturedImageData (handleReset ex_results) = None
   \<and> lastResult (handleReset ex_results) = None
   \<and> capturedLocation (handleReset ex_results) = None
   \<and> extractedNumbers (handleReset ex_results) = [''12 34 5678'']"
  by (simp add: ex_results_eq handleReset_def renderIdleView_def)

section \<open>Single flight of the camera start\<close>

text \<open>
  The flag after each piece of \<open>handleStartCamera\<close>: a piece that ends the invocation
  has passed the \<open>finally\<close> block and cleared it; a piece that waits again leaves it as it
  was.
\<close>

lemma catch_flag: "\<not> isStartingCamera (handleStartCamera_catch err s)"
  by (simp add: handleStartCamera_catch_def handleStartCamera_finally_def Let_def split_beta)

lemma checked_flag:
  "handleStartCamera_checked b s = (s', r) \<Longrightarrow>
     isStartingCamera s' = (if r = None then False else isStartingCamera s)"
  by (auto simp: handleStartCamera_checked_def handleStartCamera_finally_def
        renderCameraView_def split: if_splits)

lemma fallback_flag:
  "handleStartCamera_fallback nav video s = (s', r) \<Longrightarrow>
     isStartingCamera s' = (if r = None then False else isStartingCamera s)"
  by (auto simp: handleStartCamera_fallback_def catch_flag split: sum.splits)

lemma attach_flag:
  "handleStartCamera_attach video s = (s', r) \<Longrightarrow> r = None \<and> \<not> isStartingCamera s'"
  by (auto simp: handleStartCamera_attach_def handleStartCamera_finally_def catch_flag
        split: sum.splits)

lemma resume_flag:
  "handleStartCamera_resume nav t a s = (s', r) \<Longrightarrow>
     isStartingCamera s' = (if r = None then False else isStartingCamera s)"
proof (induction nav t a s rule: handleStartCamera_resume.induct)
  case (1 nav devices s)
  then show ?case using checked_flag by simp
next
  case (2 nav s)
  then show ?case
    by (auto simp: catch_flag split: option.splits sum.splits dest: fallback_flag)
next
  case (3 nav video strm s)
  then show ?case
    by (auto simp: split_beta Let_def split: sum.splits dest: fallback_flag attach_flag)
next
  case (4 nav video strm s)
  then show ?case
    by (auto simp: split_beta Let_def catch_flag split: sum.splits dest: attach_flag)
qed auto

lemma start_guard: "isStartingCamera s \<Longrightarrow> handleStartCamera nav s = (s, None)"
  by (simp add: handleStartCamera_def)

lemma start_flag:
  "\<not> isStartingCamera s \<Longrightarrow> handleStartCamera nav s = (s', r) \<Longrightarrow>
     isStartingCamera s' = (r \<noteq> None)"
proof -
  assume f: "\<not> isStartingCamera s" and h: "handleStartCamera nav s = (s', r)"
  show ?thesis
  proof (cases "checkCameraAvailability_begin nav")
    case (Inl b)
    then have "handleStartCamera_checked b (s\<lparr>isStartingCamera := True\<rparr>) = (s', r)"
      using f h by (simp add: handleStartCamera_def)
    from checked_flag [OF this] show ?thesis by auto
  next
    case (Inr effs)
    then show ?thesis using f h by (auto simp: handleStartCamera_def)
  qed
qed

lemma capture_flag: "isStartingCamera (handleCapture canvas s) = isStartingCamera s"
  by (simp add: handleCapture_def renderCapturedView_def renderError_def split_beta Let_def
        split: sum.splits option.splits)

lemma cancel_flag: "isStartingCamera (handleCancel s) = isStartingCamera s"
  by (simp add: handleCancel_def renderIdleView_def split_beta)

lemma reset_flag: "isStartingCamera (handleReset s) = isStartingCamera s"
  by (simp add: handleReset_def renderIdleView_def)

lemma step_single_flight: "single_flight c \<Longrightarrow> single_flight (step nav ev c)"
proof (cases c)
  case (Pair s ts)
  assume inv: "single_flight c"
  show ?thesis
  proof (cases ev)
    case (Answer a)
    show ?thesis
    proof (cases ts)
      case Nil
      then show ?thesis using inv Pair Answer by (simp add: single_flight_def)
    next
      case (Cons t ts')
      obtain s' r where res: "handleStartCamera_resume nav t a s = (s', r)" by force
      from resume_flag [OF res] inv Pair Cons Answer res show ?thesis
        by (auto simp: single_flight_def split: if_splits)
    qed
  next
    case InvokeStartCamera
    obtain s' r where res: "handleStartCamera nav s = (s', r)" by force
    show ?thesis
    proof (cases "isStartingCamera s")
      case True
      then show ?thesis using inv Pair InvokeStartCamera start_guard [of s nav]
        by (simp add: single_flight_def)
    next
      case False
      from start_flag [OF False res] inv Pair InvokeStartCamera res False show ?thesis
        by (auto simp: single_flight_def)
    qed
  next
    case InvokeRetake
    let ?s0 = "s\<lparr>capturedImageData := None\<rparr>"
    obtain s' r where res: "handleStartCamera nav ?s0 = (s', r)" by force
    show ?thesis
    proof (cases "isStartingCamera s")
      case True
      then show ?thesis using inv Pair InvokeRetake start_guard [of ?s0 nav]
        by (simp add: single_flight_def handleRetake_def)
    next
      case False
      then have f: "\<not> isStartingCamera ?s0" by simp
      from start_flag [OF f res] inv Pair InvokeRetake res False show ?thesis
        by (auto simp: single_flight_def handleRetake_def)
    qed
  next
    case (InvokeCapture canvas)
    then show ?thesis using inv Pair
      by (auto simp: single_flight_def capture_flag split: if_splits)
  next
    case InvokeCancel
    then show ?thesis using inv Pair
      by (auto simp: single_flight_def cancel_flag split: if_splits)
  next
    case InvokeReset
    then show ?thesis using inv Pair
      by (auto simp: single_flight_def reset_flag split: if_splits)
  qed
qed

lemma run_events_single_flight:
  "single_flight c \<Longrightarrow> single_flight (run_events nav evs c)"
  unfolding run_events_def
  by (induction evs arbitrary: c) (auto simp: step_single_flight)

text \<open>
  Without the capability no invocation ever waits: each ends in the error view at once.
\<close>

lemma step_no_capability:
  "\<not> getUserMedia nav \<Longrightarrow> \<not> isStartingCamera s \<Longrightarrow>
     snd (step nav ev (s, [])) = [] \<and> \<not> isStartingCamera (fst (step nav ev (s, [])))"
  by (cases ev)
     (auto simp: handleStartCamera_def checkCameraAvailability_begin_def
        handleStartCamera_checked_def handleStartCamera_finally_def handleRetake_def
        renderError_def capture_flag cancel_flag reset_flag)

lemma run_events_no_capability:
  "\<not> getUserMedia nav \<Longrightarrow> \<not> isStartingCamera s \<Longrightarrow>
     snd (run_events nav evs (s, [])) = []"
proof (induction evs arbitrary: s)
  case Nil
  then show ?case by (simp add: run_events_def)
next
  case (Cons ev evs)
  obtain s' where s': "step nav ev (s, []) = (s', [])" "\<not> isStartingCamera s'"
    using step_no_capability [OF Cons.prems, of ev] by (cases "step nav ev (s, [])") auto
  then show ?case using Cons.IH [OF Cons.prems(1) s'(2)] by (simp add: run_events_def)
qed

text \<open>
  The stream requests of one invocation that runs alone, by what the platform answers:
  none when no video device is listed, one when the back camera is granted, two when the
  back camera is refused, whatever the front camera answers. Stopping the camera makes no
  request.
\<close>

lemma no_stream_request_in_stops: "filter isStreamRequest (map TrackStop strm) = []"
  by (induction strm) auto

lemma stopCamera_no_stream_request: "filter isStreamRequest (snd (stopCamera cm)) = []"
  by (simp add: stopCamera_def no_stream_request_in_stops split: option.splits)

lemma catch_stream_requests:
  "filter isStreamRequest (effects (handleStartCamera_catch err s))
     = filter isStreamRequest (effects s)"
  by (simp add: handleStartCamera_catch_def handleStartCamera_finally_def renderError_def
        Let_def split_beta stopCamera_no_stream_request)

lemmas piece_defs =
  run_events_def handleStartCamera_def checkCameraAvailability_begin_def
  handleStartCamera_checked_def renderCameraView_def querySelector_video_def
  requestCameraAccess_begin_def requestCameraAccess_settle_def
  handleStartCamera_attach_def attachToVideoElement_def handleStartCamera_finally_def
  handleStartCamera_fallback_def renderError_def
  streamRequests_def catch_stream_requests split_beta Let_def

lemma start_alone_unavailable:
  "\<not> isStartingCamera s0 \<Longrightarrow> getUserMedia nav \<Longrightarrow> \<not> checkCameraAvailability_settle d \<Longrightarrow>
     streamRequests (fst (run_events nav [InvokeStartCamera, Answer (Devices d)] (s0, [])))
       = streamRequests s0"
  by (simp add: piece_defs)

lemma start_alone_granted:
  "\<not> isStartingCamera s0 \<Longrightarrow> getUserMedia nav \<Longrightarrow> checkCameraAvailability_settle d \<Longrightarrow>
     streamRequests (fst (run_events nav
        [InvokeStartCamera, Answer (Devices d), Answer TimerFired, Answer (Stream (Inr g))]
        (s0, [])))
       = streamRequests s0 + 1"
  by (simp add: piece_defs)

lemma start_alone_fallback:
  "\<not> isStartingCamera s0 \<Longrightarrow> getUserMedia nav \<Longrightarrow> checkCameraAvailability_settle d \<Longrightarrow>
     streamRequests (fst (run_events nav
        [InvokeStartCamera, Answer (Devices d), Answer TimerFired, Answer (Stream (Inl e)),
         Answer (Stream b)] (s0, [])))
       = streamRequests s0 + 2"
  by (cases b) (simp_all add: piece_defs)

text \<open>
  C5, as the code has it. From a state with the flag clear and nothing pending, after any
  events that leave an invocation of \<open>handleStartCamera\<close> pending, a further invocation
  returns at once and changes nothing: the log of platform calls (no device list, no
  stream request), the container (no error view) and every field stay as they are, and
  no task is created. That invocation is the only one pending, and the page goes on
  exactly as if the further invocation had not happened, so the stream requests made are
  those of the pending invocation alone. When the events but the ignored invocation are
  one start and the answers it waits for, these are: no request when no video device is
  listed, one when the back camera is granted, two when the back camera is refused and
  the front camera is asked.
\<close>

theorem handleStartCamera_single_flight:
  assumes "\<not> isStartingCamera s0"
    and "run_events nav evs (s0, []) = (s, t # ts)"
  shows "handleStartCamera nav s = (s, None)
       \<and> ts = []
       \<and> run_events nav (evs @ InvokeStartCamera # rest) (s0, [])
           = run_events nav (evs @ rest) (s0, [])
       \<and> (evs @ rest = [InvokeStartCamera, Answer (Devices d)]
            \<and> \<not> checkCameraAvailability_settle d \<longrightarrow>
          streamRequests (fst (run_events nav (evs @ InvokeStartCamera # rest) (s0, [])))
            = streamRequests s0)
       \<and> (evs @ rest
              = [InvokeStartCamera, Answer (Devices d), Answer TimerFired, Answer (Stream (Inr g))]
            \<and> checkCameraAvailability_settle d \<longrightarrow>
          streamRequests (fst (run_events nav (evs @ InvokeStartCamera # rest) (s0, [])))
            = streamRequests s0 + 1)
       \<and> (evs @ rest
              = [InvokeStartCamera, Answer (Devices d), Answer TimerFired,
                 Answer (Stream (Inl e)), Answer (Stream b)]
            \<and> checkCameraAvailability_settle d \<longrightarrow>
          streamRequests (fst (run_events nav (evs @ InvokeStartCamera # rest) (s0, [])))
            = streamRequests s0 + 2)"
proof -
  have "single_flight (s0, [])" using assms(1) by (simp add: single_flight_def)
  then have "single_flight (s, t # ts)"
    using run_events_single_flight [of "(s0, [])" nav evs] assms(2) by simp
  then have flag: "isStartingCamera s" and one: "ts = []"
    by (auto simp: single_flight_def split: if_splits)
  have noop: "handleStartCamera nav s = (s, None)" using flag by (rule start_guard)
  have "run_events nav (evs @ InvokeStartCamera # rest) (s0, [])
          = run_events nav rest (step nav InvokeStartCamera (s, t # ts))"
    by (simp add: run_events_def assms(2) [unfolded run_events_def])
  also have "\<dots> = run_events nav rest (s, t # ts)" by (simp add: noop)
  also have "\<dots> = run_events nav (evs @ rest) (s0, [])"
    by (simp add: run_events_def assms(2) [unfolded run_events_def])
  finally have same: "run_events nav (evs @ InvokeStartCamera # rest) (s0, [])
          = run_events nav (evs @ rest) (s0, [])" .
  have cap: "getUserMedia nav"
    using run_events_no_capability [of nav s0 evs] assms by auto
  show ?thesis
    using noop one same start_alone_unavailable [OF assms(1) cap, of d]
      start_alone_granted [OF assms(1) cap, of d g]
      start_alone_fallback [OF assms(1) cap, of d e b]
    by simp
qed

lemma ex_pending_eq:
  "run_events ex_nav ex_pending_events (OCRInterface_new, []) =
    (\<lparr>cameraManager = CameraManager_new, ocrEngine = OCREngine_new,
      capturedImageData = None, lastResult = None, extractedNumbers = [],
      isStartingCamera = True, capturedLocation = None,
      container = IdleView, effects = [EnumerateDevices]\<rparr>,
     [AwaitDevices])"
  by (simp add: ex_pending_events_def ex_nav_def start_defs)

theorem handleStartCamera_single_flight_witness:
  "handleStartCamera ex_nav (fst (run_events ex_nav ex_pending_events (OCRInterface_new, [])))
     = (fst (run_events ex_nav ex_pending_events (OCRInterface_new, [])), None)
   \<and> run_events ex_nav (ex_pending_events @ InvokeStartCamera # ex_fallback_events)
        (OCRInterface_new, [])
     = run_events ex_nav (ex_pending_events @ ex_fallback_events) (OCRInterface_new, [])
   \<and> streamRequests (fst (run_events ex_nav
        (ex_pending_events @ InvokeStartCamera # ex_unavailable_events) (OCRInterface_new, [])))
     = 0
   \<and> streamRequests (fst (run_events ex_nav
        (ex_pending_events @ InvokeStartCamera # ex_granted_events) (OCRInterface_new, [])))
     = 1
   \<and> streamRequests (fst (run_events ex_nav
        (ex_pending_events @ InvokeStartCamera # ex_fallback_events) (OCRInterface_new, [])))
     = 2"
proof -
  have f: "\<not> isStartingCamera OCRInterface_new" by (simp add: OCRInterface_new_def)
  have z: "streamRequests OCRInterface_new = 0"
    by (simp add: streamRequests_def OCRInterface_new_def)
  have v: "checkCameraAvailability_settle (Inr [''videoinput''])"
    "\<not> checkCameraAvailability_settle (Inr [''audioinput''])"
    by (simp_all add: checkCameraAvailability_settle_def)
  have lists:
    "ex_pending_events @ ex_unavailable_events
       = [InvokeStartCamera, Answer (Devices (Inr [''audioinput'']))]"
    "ex_pending_events @ ex_granted_events
       = [InvokeStartCamera, Answer (Devices (Inr [''videoinput''])), Answer TimerFired,
          Answer (Stream (Inr ex_stream))]"
    "ex_pending_events @ ex_fallback_events
       = [InvokeStartCamera, Answer (Devices (Inr [''videoinput''])), Answer TimerFired,
          Answer (Stream (Inl (JSError ''NotFoundError'' ''Requested device not found''))),
          Answer (Stream (Inr ex_stream))]"
    by (simp_all add: ex_pending_events_def ex_unavailable_events_def ex_granted_events_def
          ex_fallback_events_def)
  have c0: "streamRequests (fst (run_events ex_nav
        (ex_pending_events @ InvokeStartCamera # ex_unavailable_events) (OCRInterface_new, [])))
     = 0"
    using handleStartCamera_single_flight [OF f ex_pending_eq,
        where rest = ex_unavailable_events and d = "Inr [''audioinput'']" and g = ex_stream
        and e = "JSError ''NotFoundError'' ''Requested device not found''"
        and b = "Inr ex_stream"] lists(1) v(2) z
    by auto
  have c1: "streamRequests (fst (run_events ex_nav
        (ex_pending_events @ InvokeStartCamera # ex_granted_events) (OCRInterface_new, [])))
     = 1"
    using handleStartCamera_single_flight [OF f ex_pending_eq,
        where rest = ex_granted_events and d = "Inr [''videoinput'']" and g = ex_stream
        and e = "JSError ''NotFoundError'' ''Requested device not found''"
        and b = "Inr ex_stream"]
      lists(2) v(1) z
    by auto
  have c2: "handleStartCamera ex_nav
         (fst (run_events ex_nav ex_pending_events (OCRInterface_new, [])))
       = (fst (run_events ex_nav ex_pending_events (OCRInterface_new, [])), None)
     \<and> run_events ex_nav (ex_pending_events @ InvokeStartCamera # ex_fallback_events)
          (OCRInterface_new, [])
       = run_events ex_nav (ex_pending_events @ ex_fallback_events) (OCRInterface_new, [])
     \<and> streamRequests (fst (run_events ex_nav
          (ex_pending_events @ InvokeStartCamera # ex_fallback_events) (OCRInterface_new, [])))
       = 2"
    using handleStartCamera_single_flight [OF f ex_pending_eq,
        where rest = ex_fallback_events and d = "Inr [''videoinput'']" and g = ex_stream
        and e = "JSError ''NotFoundError'' ''Requested device not found''"
        and b = "Inr ex_stream"]
      lists(3) v(1) z
    by (auto simp: ex_pending_eq)
  show ?thesis using c0 c1 c2 by blast
qed

text \<open>
  The claim as the specification states it ends with "exactly one stream request
  results". Here the start button is triggered twice in a row; the second invocation
  comes while the first waits for the device list and is ignored. The back camera is not
  found, the first invocation asks for the front camera, and two stream requests have
  been made. With no video device the first invocation makes none.
\<close>

theorem handleStartCamera_two_stream_requests:
  "snd (run_events ex_nav ex_pending_events (OCRInterface_new, [])) = [AwaitDevices]
   \<and> streamRequests (fst (run_events ex_nav
        (ex_pending_events @ InvokeStartCamera # ex_fallback_events) (OCRInterface_new, []))) = 2
   \<and> effects (fst (run_events ex_nav
        (ex_pending_events @ InvokeStartCamera # ex_fallback_events) (OCRInterface_new, [])))
       = [EnumerateDevices, GetUserMedia backCamera, GetUserMedia frontCamera]
   \<and> streamRequests (fst (run_events ex_nav
        [InvokeStartCamera, InvokeStartCamera, Answer (Devices (Inr [''audioinput'']))]
        (OCRInterface_new, []))) = 0"
  by (simp add: ex_pending_events_def ex_fallback_events_def ex_nav_def ex_stream_def
        start_defs streamRequests_def handleStreamError.simps createError_def renderError_def)

section \<open>Processing and the location lookup\<close>

lemma updateProgress_stage:
  "stage_of (container s) = Processing \<Longrightarrow>
     stage_of (container (updateProgress p s)) = Processing"
  by (cases "container s") (auto simp: updateProgress_def)

lemma fold_updateProgress_stage:
  "stage_of (container s) = Processing \<Longrightarrow>
     stage_of (container (fold updateProgress ps s)) = Processing"
  by (induction ps arbitrary: s) (auto simp: updateProgress_stage)

lemma updateProgress_fields:
  "lastResult (updateProgress p s) = lastResult s
   \<and> capturedLocation (updateProgress p s) = capturedLocation s
   \<and> ocrEngine (updateProgress p s) = ocrEngine s
   \<and> capturedImageData (updateProgress p s) = capturedImageData s"
  by (cases "container s") (auto simp: updateProgress_def)

lemma fold_updateProgress_fields:
  "lastResult (fold updateProgress ps s) = lastResult s
   \<and> capturedLocation (fold updateProgress ps s) = capturedLocation s
   \<and> ocrEngine (fold updateProgress ps s) = ocrEngine s
   \<and> capturedImageData (fold updateProgress ps s) = capturedImageData s"
  by (induction ps arbitrary: s) (auto simp: updateProgress_fields)

text \<open>Two runs that differ in the location lookup only end in the same stage.\<close>

lemma handleProcessOCR_stage_settled:
  assumes "locationSettles nav run" and "locationSettles nav' (run\<lparr>position := p\<rparr>)"
  shows "stage_of (container (handleProcessOCR nav run s))
       = stage_of (container (handleProcessOCR nav' (run\<lparr>position := p\<rparr>) s))"
  using assms
  by (auto simp: handleProcessOCR_def locationSettles_def getCaptureLocation_def
        getCaptureLocation_begin_def Let_def split_beta handleProcessOCR_catch_def renderError_def
        renderResultsView_def fold_updateProgress_fields
        split: option.splits sum.splits if_splits)

lemma initialize_ready:
  "settled run = Inr w \<Longrightarrow> \<not> isReady eng \<Longrightarrow>
     fst (initialize cb run eng) = Inr () \<and> isReady (fst (snd (initialize cb run eng)))"
  by (auto simp: initialize_def isReady_def Let_def)

lemma recognizeText_success:
  "isReady eng \<Longrightarrow> settled run = Inr (cs, conf) \<Longrightarrow> trim cs \<noteq> [] \<Longrightarrow>
     fst (recognizeText img lang run eng)
       = Inr \<lparr>text' = cs, confidence = conf,
              language = (case lang of None \<Rightarrow> ''eng'' | Some l \<Rightarrow> l)\<rparr>"
  by (auto simp: recognizeText_def isReady_def Let_def trim_def)

lemma handleProcessOCR_location_failure:
  assumes img: "capturedImageData s = Some img"
    and rec: "recognitionSucceeds run s cs conf"
    and loc: "locationFails nav run"
  shows "stage_of (container (handleProcessOCR nav run s)) = Results
       \<and> capturedLocation (handleProcessOCR nav run s) = None
       \<and> lastResult (handleProcessOCR nav run s)
           = Some \<lparr>text' = cs, confidence = conf, language = ''eng''\<rparr>"
proof -
  have lp: "fst (getCaptureLocation nav (position run)) = Some None"
    using loc
    by (auto simp: locationFails_def getCaptureLocation_def getCaptureLocation_begin_def
          getCaptureLocation_settle_def split: if_splits option.splits sum.splits)
  show ?thesis
  proof (cases "isReady (ocrEngine s)")
    case True
    with img rec lp recognizeText_success [of "ocrEngine s" "recognize run" cs conf img None]
    show ?thesis
      by (simp add: handleProcessOCR_def recognitionSucceeds_def Let_def split_beta
            renderProcessingView_def renderResultsView_def fold_updateProgress_fields)
  next
    case False
    from rec False obtain w where w: "settled (createWorker run) = Inr w"
      by (auto simp: recognitionSucceeds_def split: sum.splits)
    let ?init = "initialize True (createWorker run) (ocrEngine s)"
    have i: "fst ?init = Inr ()" "isReady (fst (snd ?init))"
      using initialize_ready [OF w False] by auto
    with img rec lp False
      recognizeText_success [of "fst (snd ?init)" "recognize run" cs conf img None]
    show ?thesis
      by (simp add: handleProcessOCR_def recognitionSucceeds_def Let_def split_beta
            renderProcessingView_def renderResultsView_def fold_updateProgress_fields)
  qed
qed

lemma handleProcessOCR_waits:
  "stage_of (container (handleProcessOCR nav run s)) = Results \<Longrightarrow> locationSettles nav run"
  by (auto simp: handleProcessOCR_def locationSettles_def getCaptureLocation_def
        getCaptureLocation_begin_def Let_def split_beta handleProcessOCR_catch_def renderError_def
        renderProcessingView_def fold_updateProgress_stage
        split: option.splits sum.splits if_splits)

text \<open>
  C6. The stage in which \<open>handleProcessOCR\<close> ends does not depend on how the location
  lookup settles: two runs that differ only in the answer to the position request, or in
  whether the platform has geolocation at all, end in the same stage. When recognition
  succeeds and the lookup fails (an error answer, or no geolocation), the handler ends in
  the results with no location and with the recognized text as its result. And the
  results are entered only when the location promise has settled.
\<close>

theorem handleProcessOCR_location_best_effort:
  "(locationSettles nav run \<and> locationSettles nav' (run\<lparr>position := p\<rparr>) \<longrightarrow>
      stage_of (container (handleProcessOCR nav run s))
        = stage_of (container (handleProcessOCR nav' (run\<lparr>position := p\<rparr>) s)))
   \<and> (capturedImageData s = Some img \<and> recognitionSucceeds run s cs conf
        \<and> locationFails nav run \<longrightarrow>
        stage_of (container (handleProcessOCR nav run s)) = Results
        \<and> capturedLocation (handleProcessOCR nav run s) = None
        \<and> lastResult (handleProcessOCR nav run s)
            = Some \<lparr>text' = cs, confidence = conf, language = ''eng''\<rparr>)
   \<and> (stage_of (container (handleProcessOCR nav run s)) = Results \<longrightarrow>
        locationSettles nav run)"
  using handleProcessOCR_stage_settled [of nav run nav' p s]
    handleProcessOCR_location_failure [of s img run cs conf nav]
    handleProcessOCR_waits [of nav run s]
  by blast

text \<open>
  On the session of the example: the position request times out and the results are
  entered without a location; with a position answered instead, and on a platform
  without geolocation, the stage is the same.
\<close>

theorem handleProcessOCR_location_best_effort_witness:
  "stage_of (container (handleProcessOCR ex_nav ex_process_run ex_captured)) = Results
   \<and> capturedLocation (handleProcessOCR ex_nav ex_process_run ex_captured) = None
   \<and> lastResult (handleProcessOCR ex_nav ex_process_run ex_captured)
       = Some \<lparr>text' = ''order 12 34 5678 thanks'', confidence = 87, language = ''eng''\<rparr>
   \<and> stage_of (container (handleProcessOCR ex_nav
        (ex_process_run\<lparr>position := Some (Inr \<lparr>latitude = 59, longitude = 18\<rparr>)\<rparr>)
        ex_captured)) = Results
   \<and> stage_of (container (handleProcessOCR \<lparr>getUserMedia = True, geolocation = False\<rparr>
        (ex_process_run\<lparr>position := None\<rparr>) ex_captured)) = Results
   \<and> locationSettles ex_nav ex_process_run"
proof -
  have img: "capturedImageData ex_captured = Some ex_image" by (simp add: ex_captured_eq)
  have rec: "recognitionSucceeds ex_process_run ex_captured ''order 12 34 5678 thanks'' 87"
    by (simp add: recognitionSucceeds_def ex_process_run_def ex_text_run_def ex_captured_eq
          isReady_def OCREngine_new_def trim_def isSpace_def)
  have loc: "locationFails ex_nav ex_process_run"
    by (simp add: locationFails_def ex_nav_def ex_process_run_def)
  have st: "locationSettles ex_nav ex_process_run"
    by (simp add: locationSettles_def ex_nav_def ex_process_run_def)
  have st1: "locationSettles ex_nav
      (ex_process_run\<lparr>position := Some (Inr \<lparr>latitude = 59, longitude = 18\<rparr>)\<rparr>)"
    by (simp add: locationSettles_def)
  have st2: "locationSettles \<lparr>getUserMedia = True, geolocation = False\<rparr>
      (ex_process_run\<lparr>position := None\<rparr>)"
    by (simp add: locationSettles_def)
  show ?thesis
    using handleProcessOCR_location_best_effort [of ex_nav ex_process_run ex_nav
        "Some (Inr \<lparr>latitude = 59, longitude = 18\<rparr>)" ex_captured ex_image
        "''order 12 34 5678 thanks''" 87]
      handleProcessOCR_location_best_effort [of ex_nav ex_process_run
        "\<lparr>getUserMedia = True, geolocation = False\<rparr>" None ex_captured ex_image
        "''order 12 34 5678 thanks''" 87]
      img rec loc st st1 st2
    by auto
qed

end
